theory Spec2Isabelle
  imports Complex_Main "HOL-Library.Sublist" "HOL-Library.AList"
begin

section \<open>Plugin configurations and raw plugins (internal-api.ts)\<close>

text \<open>
  A \<open>PluginConfiguration\<close> of nx.json is either a bare module name or an object
  \<open>{plugin, options?, include?, exclude?}\<close>. The constructor of \<open>LoadedNxPlugin\<close>
  tells the two apart with \<open>typeof pluginDefinition !== 'string'\<close>.
\<close>

record 'opt ExpandedPluginConfiguration =
  cfg_plugin :: string
  cfg_options :: "'opt option"
  cfg_include :: "string list option"
  cfg_exclude :: "string list option"

datatype 'opt PluginConfiguration =
    PluginString string
  | PluginObject "'opt ExpandedPluginConfiguration"

text \<open>
  Modelled from the spec: the class \<open>AggregateCreateNodesError\<close> of \<open>../error-types\<close>,
  missing from the sources. A value that a hook may throw is either the aggregate error
  (per-file failures, each a pair of an optional file and the error, plus the partial
  results salvaged so far) or any other error.
\<close>

datatype ('e, 'res) thrown =
    AggregateCreateNodesError
      "(string option \<times> ('e, 'res) thrown) list"
      "(string \<times> string \<times> 'res) list"
  | OtherError 'e

text \<open>
  Modelled from the spec: the type guard \<open>isAggregateCreateNodesError\<close> of
  \<open>../error-types\<close>, missing from the sources: it holds of the aggregate error and of
  nothing else.
\<close>

fun isAggregateCreateNodesError :: "('e, 'res) thrown \<Rightarrow> bool" where
  "isAggregateCreateNodesError (AggregateCreateNodesError errs partialResults) = True"
| "isAggregateCreateNodesError (OtherError e) = False"

text \<open>
  The entries written to the global \<open>performance\<close> timeline: \<open>performance.mark(name)\<close>
  and \<open>performance.measure(name, startMark, endMark)\<close>. The timeline is threaded through
  every function that writes to it.
\<close>

datatype PerformanceEntry =
    Mark string
  | Measure string string string

type_synonym performance = "PerformanceEntry list"

text \<open>
  Types the adapter only passes along: the contexts and results of the dependency and
  metadata hooks, the project graph and the legacy graph processor.
\<close>

typedecl CreateDependenciesContext
typedecl CreateDependenciesResult
typedecl CreateMetadataContext
typedecl CreateMetadataResult
typedecl ProjectGraph
typedecl ProjectGraphProcessor

text \<open>
  \<open>NormalizedPlugin = NxPluginV2 & Pick<NxPluginV1, 'processProjectGraph'>\<close>. Every hook is
  optional. The legacy hook \<open>createNodes\<close> is a pair of a glob and a single-file function;
  the adapter never calls that function itself (it hands it to \<open>createNodesFromFiles\<close>), so
  its type is left open as \<open>'fn1\<close>. The batched hook \<open>createNodesV2\<close> is a pair of a glob
  and a function of all matched files, the options and the context; it returns the list of
  \<open>(file, result)\<close> pairs or throws.
\<close>

type_synonym ('opt, 'ctx, 'e, 'res) CreateNodesFunctionV2 =
  "string list \<Rightarrow> 'opt option \<Rightarrow> 'ctx \<Rightarrow> ('e, 'res) thrown + (string \<times> 'res) list"

record ('opt, 'ctx, 'e, 'res, 'fn1) NormalizedPlugin =
  plugin_name :: string
  plugin_createNodes :: "(string \<times> 'fn1) option"
  plugin_createNodesV2 :: "(string \<times> ('opt, 'ctx, 'e, 'res) CreateNodesFunctionV2) option"
  plugin_createDependencies ::
    "('opt option \<Rightarrow> CreateDependenciesContext \<Rightarrow> CreateDependenciesResult) option"
  plugin_createMetadata ::
    "(ProjectGraph \<Rightarrow> 'opt option \<Rightarrow> CreateMetadataContext \<Rightarrow> CreateMetadataResult) option"
  plugin_processProjectGraph :: "ProjectGraphProcessor option"

text \<open>
  The batched function of a loaded plugin takes the matched files and the context and
  returns triples \<open>(plugin, file, result)\<close>, or throws; it also writes to the timeline.
\<close>

type_synonym ('ctx, 'e, 'res) LoadedCreateNodesFunction =
  "string list \<Rightarrow> 'ctx \<Rightarrow> performance
     \<Rightarrow> (('e, 'res) thrown + (string \<times> string \<times> 'res) list) \<times> performance"

record ('opt, 'ctx, 'e, 'res) LoadedNxPlugin =
  name :: string
  createNodes :: "(string \<times> ('ctx, 'e, 'res) LoadedCreateNodesFunction) option"
  createDependencies :: "(CreateDependenciesContext \<Rightarrow> CreateDependenciesResult) option"
  createMetadata ::
    "(ProjectGraph \<Rightarrow> CreateMetadataContext \<Rightarrow> CreateMetadataResult) option"
  processProjectGraph :: "ProjectGraphProcessor option"
  options :: "'opt option"
  include' :: "string list option"
  exclude' :: "string list option"

text \<open>
  \<open>createNodesFromFiles\<close> lives in \<open>./utils\<close>, which is not part of the sources; it is a
  parameter of the model: given the single-file function, the files, the options and the
  context it returns the list of \<open>(file, result)\<close> pairs or throws.
\<close>

type_synonym ('opt, 'ctx, 'e, 'res, 'fn1) createNodesFromFiles =
  "'fn1 \<Rightarrow> string list \<Rightarrow> 'opt option \<Rightarrow> 'ctx \<Rightarrow> ('e, 'res) thrown + (string \<times> 'res) list"

subsection \<open>The constructor of LoadedNxPlugin\<close>

text \<open>
  Lines 66 to 91: the uniform batched function, before instrumentation. The first \<open>if\<close>
  fires for a plugin with the legacy hook and no batched hook; the second, for a plugin with
  the batched hook, overwrites whatever the first assigned. Both tag every pair of the
  underlying result with \<open>this.name\<close>; a rejection of the underlying promise passes
  through \<open>.then\<close> and \<open>await\<close> as it is.
\<close>

definition normalizedCreateNodes ::
  "('opt, 'ctx, 'e, 'res, 'fn1) createNodesFromFiles
   \<Rightarrow> ('opt, 'ctx, 'e, 'res, 'fn1) NormalizedPlugin \<Rightarrow> string \<Rightarrow> 'opt option
   \<Rightarrow> (string \<times> (string list \<Rightarrow> 'ctx
         \<Rightarrow> ('e, 'res) thrown + (string \<times> string \<times> 'res) list)) option" where
  "normalizedCreateNodes createNodesFromFiles plugin this_name this_options =
     (let legacy =
            (case plugin_createNodes plugin of
               None \<Rightarrow> None
             | Some cn \<Rightarrow>
                 (case plugin_createNodesV2 plugin of
                    Some v2 \<Rightarrow> None
                  | None \<Rightarrow>
                      Some (fst cn, \<lambda>configFiles context.
                        (case createNodesFromFiles (snd cn) configFiles this_options context of
                           Inl e \<Rightarrow> Inl e
                         | Inr results \<Rightarrow>
                             Inr (map (\<lambda>r. (this_name, fst r, snd r)) results)))))
      in case plugin_createNodesV2 plugin of
           None \<Rightarrow> legacy
         | Some v2 \<Rightarrow>
             Some (fst v2, \<lambda>configFiles context.
               (case snd v2 configFiles this_options context of
                  Inl e \<Rightarrow> Inl e
                | Inr result \<Rightarrow> Inr (map (\<lambda>r. (this_name, fst r, snd r)) result))))"

text \<open>
  Lines 93 to 114: the wrapper put around \<open>inner\<close>. It marks the start, runs \<open>inner\<close>,
  rethrows an aggregate error, replaces any other error by
  \<open>new AggregateCreateNodesError([[null, e]], [])\<close>, and in \<open>finally\<close> marks the end and
  records the measure.
\<close>

definition instrumented ::
  "string \<Rightarrow> (string list \<Rightarrow> 'ctx \<Rightarrow> ('e, 'res) thrown + (string \<times> string \<times> 'res) list)
   \<Rightarrow> ('ctx, 'e, 'res) LoadedCreateNodesFunction" where
  "instrumented pname inner configFiles context perf =
     (let perf1 = perf @ [Mark (pname @ '':createNodes - start'')];
          outcome =
            (case inner configFiles context of
               Inr results \<Rightarrow> Inr results
             | Inl e \<Rightarrow>
                 if isAggregateCreateNodesError e then Inl e
                 else Inl (AggregateCreateNodesError [(None, e)] []));
          perf2 = perf1 @
            [Mark (pname @ '':createNodes - end''),
             Measure (pname @ '':createNodes'')
               (pname @ '':createNodes - start'') (pname @ '':createNodes - end'')]
      in (outcome, perf2))"

definition LoadedNxPlugin ::
  "('opt, 'ctx, 'e, 'res, 'fn1) createNodesFromFiles
   \<Rightarrow> ('opt, 'ctx, 'e, 'res, 'fn1) NormalizedPlugin \<Rightarrow> 'opt PluginConfiguration
   \<Rightarrow> ('opt, 'ctx, 'e, 'res) LoadedNxPlugin" where
  "LoadedNxPlugin createNodesFromFiles plugin pluginDefinition =
     (let this_name = plugin_name plugin;
          this_options =
            (case pluginDefinition of
               PluginString s \<Rightarrow> None | PluginObject d \<Rightarrow> cfg_options d);
          this_include =
            (case pluginDefinition of
               PluginString s \<Rightarrow> None | PluginObject d \<Rightarrow> cfg_include d);
          this_exclude =
            (case pluginDefinition of
               PluginString s \<Rightarrow> None | PluginObject d \<Rightarrow> cfg_exclude d);
          this_createNodes =
            (case normalizedCreateNodes createNodesFromFiles plugin this_name this_options of
               None \<Rightarrow> None
             | Some cn \<Rightarrow> Some (fst cn, instrumented (plugin_name plugin) (snd cn)))
      in \<lparr> name = this_name,
           createNodes = this_createNodes,
           createDependencies =
             (case plugin_createDependencies plugin of
                None \<Rightarrow> None
              | Some f \<Rightarrow> Some (\<lambda>context. f this_options context)),
           createMetadata =
             (case plugin_createMetadata plugin of
                None \<Rightarrow> None
              | Some f \<Rightarrow> Some (\<lambda>graph context. f graph this_options context)),
           processProjectGraph = plugin_processProjectGraph plugin,
           options = this_options,
           include' = this_include,
           exclude' = this_exclude \<rparr>)"

text \<open>
  What a caller does with a loaded plugin: if it has the capability, call
  \<open>plugin.createNodes[1](files, context)\<close> and look at how the call settles.
\<close>

definition invokeCreateNodes ::
  "('opt, 'ctx, 'e, 'res) LoadedNxPlugin \<Rightarrow> string list \<Rightarrow> 'ctx \<Rightarrow> performance
   \<Rightarrow> (('e, 'res) thrown + (string \<times> string \<times> 'res) list) option" where
  "invokeCreateNodes loaded configFiles context perf =
     (case createNodes loaded of
        None \<Rightarrow> None
      | Some cn \<Rightarrow> Some (fst (snd cn configFiles context perf)))"

section \<open>Resolving and loading the plugins (internal-api.ts)\<close>

text \<open>
  What \<open>normalizePlugins\<close>, \<open>getDefaultPlugins\<close> and \<open>loadNxPlugins\<close> take from their
  surroundings: the directory of the module (\<open>__dirname\<close>), \<open>path.join\<close>,
  \<open>shouldMergeAngularProjects\<close>, \<open>workspaceRoot\<close>, the process environment, the two
  loading methods of \<open>./isolation\<close> and \<open>./loader\<close>, and \<open>unregisterPluginTSTranspiler\<close>
  (which may be undefined). None of them is part of the sources.

  A loading method returns, or rejects before returning, a pair of a promise of the loaded
  plugin and a cleanup function. A settled promise is a sum: \<open>Inl\<close> the rejection,
  \<open>Inr\<close> the value. A cleanup function is a token of type \<open>'c\<close>: the model records
  which ones run, in which order.
\<close>

type_synonym ('opt, 'e, 'lp, 'c) loadingMethod =
  "'opt PluginConfiguration \<Rightarrow> string \<Rightarrow> 'e + (('e + 'lp) \<times> 'c)"

record ('opt, 'e, 'lp, 'c) Externals =
  module_dirname :: string
  join :: "string \<Rightarrow> string \<Rightarrow> string"
  shouldMergeAngularProjects :: "string \<Rightarrow> bool \<Rightarrow> bool"
  workspaceRoot :: string
  env :: "string \<rightharpoonup> string"
  loadNxPluginInIsolation :: "('opt, 'e, 'lp, 'c) loadingMethod"
  loadNxPlugin :: "('opt, 'e, 'lp, 'c) loadingMethod"
  unregisterPluginTSTranspiler :: "'c option"

definition getDefaultPlugins ::
  "('opt, 'e, 'lp, 'c) Externals \<Rightarrow> string \<Rightarrow> 'opt PluginConfiguration list" where
  "getDefaultPlugins ext root' =
     [PluginString (join ext (module_dirname ext) ''../../plugins/js'')] @
     (if shouldMergeAngularProjects ext root' False
      then [PluginString (join ext (module_dirname ext) ''../../adapter/angular-json'')]
      else []) @
     [PluginString (join ext (module_dirname ext) ''../../plugins/package-json-workspaces''),
      PluginString
        (join ext (module_dirname ext) ''../../plugins/project-json/build-nodes/project-json'')]"

text \<open>\<open>plugins ??= []\<close>: a missing list of user plugins counts as the empty list.\<close>

definition normalizePlugins ::
  "('opt, 'e, 'lp, 'c) Externals \<Rightarrow> 'opt PluginConfiguration list option \<Rightarrow> string
   \<Rightarrow> 'opt PluginConfiguration list" where
  "normalizePlugins ext plugins root' =
     [PluginString
        (join ext (module_dirname ext)
           ''../../plugins/project-json/build-nodes/package-json-next-to-project-json'')] @
     (case plugins of None \<Rightarrow> [] | Some ps \<Rightarrow> ps) @
     getDefaultPlugins ext root'"

text \<open>
  The callbacks of \<open>plugins.map(async (plugin, idx) => ...)\<close>, run in the order in which
  their \<open>await loadingMethod(plugin, root)\<close> completes. Each stores the promise of the
  loaded plugin at its own index of \<open>result\<close> and pushes its cleanup function. The first
  rejection rejects the surrounding \<open>Promise.all\<close>, and with it \<open>loadNxPlugins\<close>; what the
  later callbacks do to the two local arrays is then seen by nobody.
\<close>

fun run_callbacks ::
  "(nat \<times> ('e + ('p \<times> 'c))) list \<Rightarrow> 'p option list \<times> 'c list
   \<Rightarrow> 'e + ('p option list \<times> 'c list)" where
  "run_callbacks [] st = Inr st"
| "run_callbacks ((idx, Inl e) # rest) st = Inl e"
| "run_callbacks ((idx, Inr (loadedPluginPromise, cleanup)) # rest) (result, cleanupFunctions) =
     run_callbacks rest
       (result[idx := Some loadedPluginPromise], cleanupFunctions @ [cleanup])"

text \<open>
  \<open>Promise.all(result)\<close> over an array of settled promises, where \<open>None\<close> is a slot of
  \<open>new Array(n)\<close> never assigned (it resolves to \<open>undefined\<close>). \<open>when idx\<close> is the
  time at which \<open>Promise.all\<close> sees the promise at \<open>idx\<close> settle; equal times are
  taken in index order, the order in which \<open>Promise.all\<close> subscribes. The first rejection
  seen rejects the whole. With no rejection the values come back in index order.
\<close>

definition promise_all ::
  "(nat \<Rightarrow> nat) \<Rightarrow> ('e + 'a) option list \<Rightarrow> 'e + 'a option list" where
  "promise_all when ps =
     (case List.map_filter
             (\<lambda>i. case ps ! i of Some (Inl e) \<Rightarrow> Some e | Some (Inr v) \<Rightarrow> None | None \<Rightarrow> None)
             (sort_key when [0..<length ps]) of
        e # es \<Rightarrow> Inl e
      | [] \<Rightarrow>
          Inr (map (\<lambda>p. case p of Some (Inr v) \<Rightarrow> Some v | Some (Inl e) \<Rightarrow> None | None \<Rightarrow> None)
                 ps))"

text \<open>
  The loading method is a policy of the whole run: isolation unless the environment
  variable \<open>NX_ISOLATE_PLUGINS\<close> is the string \<open>false\<close>.
\<close>

definition loadingMethod ::
  "('opt, 'e, 'lp, 'c) Externals \<Rightarrow> ('opt, 'e, 'lp, 'c) loadingMethod" where
  "loadingMethod ext =
     (if env ext ''NX_ISOLATE_PLUGINS'' \<noteq> Some ''false''
      then loadNxPluginInIsolation ext else loadNxPlugin ext)"

text \<open>
  The completion order of the concurrent loads is a parameter: \<open>when_loaded idx\<close> is the
  time at which \<open>loadingMethod\<close> settles for the plugin at \<open>idx\<close>, \<open>when_ready idx\<close>
  the time at which the promise of that loaded plugin settles.

  \<open>Promise.all(result)\<close> is called once the first \<open>Promise.all\<close> has resolved, that
  is when the last \<open>loadingMethod\<close> has settled (\<open>all_loaded\<close>). A promise of
  \<open>result\<close> that settled before is seen at that moment, so among the promises already
  rejected by then the one at the lowest index is seen first; a promise that settles later
  is seen when it settles (\<open>seen_at\<close>).
\<close>

definition all_loaded :: "(nat \<Rightarrow> nat) \<Rightarrow> nat \<Rightarrow> nat" where
  "all_loaded when_loaded n = fold max (map when_loaded [0..<n]) 0"

definition seen_at :: "(nat \<Rightarrow> nat) \<Rightarrow> (nat \<Rightarrow> nat) \<Rightarrow> nat \<Rightarrow> nat \<Rightarrow> nat" where
  "seen_at when_loaded when_ready n idx = max (when_ready idx) (all_loaded when_loaded n)"

text \<open>
  \<open>loadNxPlugins\<close>. The result is the array of loaded plugins and the cleanup closure,
  given as the list of the cleanup functions it calls, in order. The end mark and the
  measure are written only when nothing was thrown.
\<close>

definition loadNxPlugins ::
  "('opt, 'e, 'lp, 'c) Externals \<Rightarrow> (nat \<Rightarrow> nat) \<Rightarrow> (nat \<Rightarrow> nat)
   \<Rightarrow> 'opt PluginConfiguration list option \<Rightarrow> string option \<Rightarrow> performance
   \<Rightarrow> ('e + ('lp option list \<times> 'c list)) \<times> performance" where
  "loadNxPlugins ext when_loaded when_ready plugins root_arg perf =
     (let root' = (case root_arg of None \<Rightarrow> workspaceRoot ext | Some r \<Rightarrow> r);
          perf1 = perf @ [Mark ''loadNxPlugins:start''];
          plugins1 = normalizePlugins ext plugins root';
          result0 = replicate (length plugins1) None;
          started =
            map (\<lambda>idx. (idx, loadingMethod ext (plugins1 ! idx) root')) [0..<length plugins1]
      in case run_callbacks (sort_key (\<lambda>cb. when_loaded (fst cb)) started) (result0, []) of
           Inl e \<Rightarrow> (Inl e, perf1)
         | Inr (result, cleanupFunctions) \<Rightarrow>
             (case promise_all (seen_at when_loaded when_ready (length plugins1)) result of
                Inl e \<Rightarrow> (Inl e, perf1)
              | Inr loaded \<Rightarrow>
                  (Inr (loaded,
                        cleanupFunctions @
                        (case unregisterPluginTSTranspiler ext of
                           None \<Rightarrow> [] | Some u \<Rightarrow> [u])),
                   perf1 @
                   [Mark ''loadNxPlugins:end'',
                    Measure ''loadNxPlugins'' ''loadNxPlugins:start'' ''loadNxPlugins:end''])))"

section \<open>Prompt messages (PromptMessages)\<close>

record Choice =
  choice_value :: string
  choice_name :: string

record Fallback =
  fallback_value :: string
  fallback_key :: string

record MessageData =
  code :: string
  message :: string
  initial :: nat
  choices :: "Choice list"
  footer :: string
  hint :: "string option"
  fallback :: "Fallback option"

definition ci_footer :: string where
  "ci_footer = CHR 0x0A #
     ''Remote caching, task distribution, and test splitting are provided by Nx Cloud. Read more at https://nx.dev/ci''"

text \<open>
  The table \<open>messageOptions\<close>, a \<open>Record<string, MessageData[]>\<close>: two messages for
  \<open>setupCI\<close>, one for \<open>setupNxCloud\<close>, nothing for any other key.
\<close>

definition messageOptions :: "string \<rightharpoonup> MessageData list" where
  "messageOptions =
     [''setupCI'' \<mapsto>
        [\<lparr> code = ''which-ci-provider'',
            message = ''Which CI provider would you like to use?'',
            initial = 0,
            choices =
              [\<lparr> choice_value = ''github'', choice_name = ''GitHub Actions'' \<rparr>,
               \<lparr> choice_value = ''circleci'', choice_name = ''Circle CI'' \<rparr>,
               \<lparr> choice_value = ''gitlab'', choice_name = ''Gitlab'' \<rparr>,
               \<lparr> choice_value = ''azure'', choice_name = ''Azure DevOps'' \<rparr>,
               \<lparr> choice_value = ''bitbucket-pipelines'', choice_name = ''BitBucket Pipelines'' \<rparr>,
               \<lparr> choice_value = ''skip'', choice_name = CHR 0x0A # ''Do it later'' \<rparr>],
            footer = ci_footer,
            hint = None,
            fallback = Some \<lparr> fallback_value = ''skip'', fallback_key = ''setupNxCloud'' \<rparr> \<rparr>,
         \<lparr> code = ''set-up-ci'',
            message = ''Set up CI with caching, distribution and test deflaking'',
            initial = 0,
            choices =
              [\<lparr> choice_value = ''github'', choice_name = ''GitHub Actions'' \<rparr>,
               \<lparr> choice_value = ''circleci'', choice_name = ''CircleCI'' \<rparr>,
               \<lparr> choice_value = ''gitlab'', choice_name = ''Gitlab'' \<rparr>,
               \<lparr> choice_value = ''azure'', choice_name = ''Azure DevOps'' \<rparr>,
               \<lparr> choice_value = ''bitbucket-pipelines'', choice_name = ''BitBucket Pipelines'' \<rparr>,
               \<lparr> choice_value = ''skip'', choice_name = CHR 0x0A # ''Do it later'' \<rparr>],
            footer = ci_footer,
            hint = None,
            fallback = Some \<lparr> fallback_value = ''skip'', fallback_key = ''setupNxCloud'' \<rparr> \<rparr>],
      ''setupNxCloud'' \<mapsto>
        [\<lparr> code = ''enable-caching'',
            message = ''Would you like remote caching to make your build faster?'',
            initial = 0,
            choices =
              [\<lparr> choice_value = ''yes'', choice_name = ''Yes'' \<rparr>,
               \<lparr> choice_value = ''skip'', choice_name = ''Skip for now'' \<rparr>],
            footer = CHR 0x0A #
              ''Read more about remote caching at https://nx.dev/ci/features/remote-cache'',
            hint = Some (CHR 0x0A # ''(it'' @ [CHR 0x27] @ ''s free and can be disabled any time)''),
            fallback = None \<rparr>]]"

datatype js_error = TypeError

text \<open>
  An instance of \<open>PromptMessages\<close> holds \<open>selectedMessages\<close>, empty at construction.
\<close>

record PromptMessages =
  selectedMessages :: "string \<rightharpoonup> nat"

definition new_PromptMessages :: PromptMessages where
  "new_PromptMessages = \<lparr> selectedMessages = Map.empty \<rparr>"

text \<open>
  \<open>selectedMessages\<close> and \<open>messageOptions\<close> are plain objects, so a read \<open>obj[key]\<close>
  that finds no property of the object itself goes on to \<open>Object.prototype\<close>. These are
  the string-named properties found there; each is a function, except \<open>__proto__\<close>, which
  reads as \<open>Object.prototype\<close> itself. None of them is \<open>undefined\<close>, none is an array,
  and none has a property named by a number, by a function or by an object.
\<close>

definition Object_prototype_properties :: "string list" where
  "Object_prototype_properties =
     [''constructor'', ''__defineGetter__'', ''__defineSetter__'', ''hasOwnProperty'',
      ''__lookupGetter__'', ''__lookupSetter__'', ''isPrototypeOf'', ''propertyIsEnumerable'',
      ''toString'', ''valueOf'', ''__proto__'', ''toLocaleString'']"

text \<open>
  \<open>getPrompt\<close>. \<open>random\<close> is what \<open>Math.random()\<close> returns if it is called, a number
  in \<open>[0, 1)\<close>.

  The test \<open>this.selectedMessages[key] === undefined\<close> holds when the instance has no
  index for the key and the key names nothing inherited. Then documentation mode stores
  0; otherwise \<open>messageOptions[key].length\<close> is read, which throws a TypeError for a key
  without an entry in the table (nothing is stored then).

  The final read \<open>messageOptions[key][this.selectedMessages[key]]\<close>: for a key of the
  table it is the message at the stored index, \<open>undefined\<close> (here \<open>None\<close>) when the index
  is outside the array; for an inherited key it reads a property that the inherited
  function or object does not have, so it is \<open>undefined\<close> and nothing has been stored;
  for any other key \<open>messageOptions[key]\<close> is \<open>undefined\<close> and the read throws a
  TypeError.
\<close>

definition getPrompt ::
  "(string \<rightharpoonup> string) \<Rightarrow> real \<Rightarrow> string \<Rightarrow> PromptMessages
   \<Rightarrow> (js_error + MessageData option) \<times> PromptMessages" where
  "getPrompt penv random key this =
     (let inherited = (key \<in> set Object_prototype_properties);
          selected =
            (case selectedMessages this key of
               Some i \<Rightarrow> Inr this
             | None \<Rightarrow>
                 if inherited then Inr this
                 else if penv ''NX_GENERATE_DOCS_PROCESS'' = Some ''true''
                 then Inr (this\<lparr>selectedMessages := (selectedMessages this)(key \<mapsto> 0)\<rparr>)
                 else
                   (case messageOptions key of
                      None \<Rightarrow> Inl TypeError
                    | Some opts \<Rightarrow>
                        Inr (this\<lparr>selectedMessages := (selectedMessages this)
                               (key \<mapsto> nat \<lfloor>random * real (length opts)\<rfloor>)\<rparr>)))
      in case selected of
           Inl e \<Rightarrow> (Inl e, this)
         | Inr this1 \<Rightarrow>
             (case messageOptions key of
                None \<Rightarrow> if inherited then (Inr None, this1) else (Inl TypeError, this1)
              | Some opts \<Rightarrow>
                  (case selectedMessages this1 key of
                     None \<Rightarrow> (Inr None, this1)
                   | Some i \<Rightarrow>
                       (Inr (if i < length opts then Some (opts ! i) else None), this1))))"

text \<open>
  A run: a sequence of calls of \<open>getPrompt\<close> on one instance, each with its key and with
  the number \<open>Math.random()\<close> would return at that call.
\<close>

fun getPrompts ::
  "(string \<rightharpoonup> string) \<Rightarrow> (string \<times> real) list \<Rightarrow> PromptMessages
   \<Rightarrow> (js_error + MessageData option) list \<times> PromptMessages" where
  "getPrompts penv [] this = ([], this)"
| "getPrompts penv ((key, random) # calls) this =
     (let (r, this1) = getPrompt penv random key this;
          (rs, this2) = getPrompts penv calls this1
      in (r # rs, this2))"

section \<open>The Gradle provider (nodes.ts, seen through nodes.spec.ts)\<close>

text \<open>
  The module \<open>./nodes\<close> that exports the Gradle \<open>createNodesV2\<close> is not part of the
  sources; its test \<open>nodes.spec.ts\<close> is, with the report it mocks, the inputs it passes and
  the snapshots it expects. The definitions of this section follow section 4.5 of the
  specification, and take the fixed strings (inputs, technologies, descriptions) from the
  snapshots of the test.
\<close>

text \<open>
  Modelled from the spec: a reference in \<open>dependsOn\<close>, missing with \<open>./nodes\<close>: a bare
  target name of the same project, or a structured reference \<open>{projects, target, params}\<close>.
\<close>

datatype TargetDependency =
    TargetName string
  | TargetReference (projects: string) (target: string) (params: string)

text \<open>
  Modelled from the spec: the metadata of a target, missing with \<open>./nodes\<close>: a description,
  the name of the target an umbrella target stands for, and the technologies.
\<close>

record TargetMetadata =
  description :: "string option"
  nonAtomizedTarget :: "string option"
  technologies :: "string list"

text \<open>
  Modelled from the spec: a target definition, missing with \<open>./nodes\<close>: a command or an
  executor, the ordered references it depends on, the named inputs, the cache flag and
  the metadata.
\<close>

record TargetDefinition =
  command :: "string option"
  executor :: "string option"
  dependsOn :: "TargetDependency list"
  inputs :: "string list"
  cache :: bool
  metadata :: TargetMetadata

text \<open>
  Modelled from the spec: the metadata of a project, missing with \<open>./nodes\<close>: the target
  groups, from a category to the ordered list of target names, and the technologies.
\<close>

record ProjectMetadata =
  targetGroups :: "(string \<times> string list) list"
  project_technologies :: "string list"

text \<open>
  Modelled from the spec: a project definition, missing with \<open>./nodes\<close>: its name, its
  targets in insertion order and its metadata.
\<close>

record ProjectDefinition =
  project_name :: string
  targets :: "(string \<times> TargetDefinition) list"
  project_metadata :: ProjectMetadata

text \<open>
  Modelled from the spec: the contribution of one matched file, missing with \<open>./nodes\<close>:
  the project definitions keyed by project root.
\<close>

record NodeResult =
  result_projects :: "(string \<times> ProjectDefinition) list"

text \<open>
  The report of \<open>../utils/get-gradle-report\<close>, with the five maps the test fills in.
  A JavaScript \<open>Map\<close> keeps insertion order, so each is an association list.
\<close>

record GradleReport =
  gradleFileToGradleProjectMap :: "(string \<times> string) list"
  buildFileToDepsMap :: "(string \<times> string) list"
  gradleFileToOutputDirsMap :: "(string \<times> (string \<times> string) list) list"
  gradleProjectToTasksTypeMap :: "(string \<times> (string \<times> string) list) list"
  gradleProjectToProjectName :: "(string \<times> string) list"

text \<open>The options the test passes to the plugin.\<close>

record GradlePluginOptions =
  buildTargetName :: "string option"
  ciTargetName :: "string option"

text \<open>The set \<open>GRADLE_BUILD_FILES\<close> of the mocked module.\<close>

definition GRADLE_BUILD_FILES :: "string list" where
  "GRADLE_BUILD_FILES = [''build.gradle'', ''build.gradle.kts'']"

text \<open>
  Modelled from the spec: the name of a file, missing with \<open>./nodes\<close>: what follows the
  last slash of its path.
\<close>

definition basename :: "string \<Rightarrow> string" where
  "basename path = rev (takeWhile (\<lambda>c. c \<noteq> CHR ''/'') (rev path))"

text \<open>
  Modelled from the spec: the project root, missing with \<open>./nodes\<close>: the directory that
  contains the build file, \<open>.\<close> for a file at the top of the workspace.
\<close>

definition dirname :: "string \<Rightarrow> string" where
  "dirname path =
     (if CHR ''/'' \<notin> set path then ''.''
      else let dir = rev (drop 1 (dropWhile (\<lambda>c. c \<noteq> CHR ''/'') (rev path)))
           in if dir = [] then ''/'' else dir)"

text \<open>
  Modelled from the spec: the test-class identifier, missing with \<open>./nodes\<close>: the name of
  the file without its extension.
\<close>

definition className :: "string \<Rightarrow> string" where
  "className testFile =
     (let file = basename testFile;
          stem = rev (drop 1 (dropWhile (\<lambda>c. c \<noteq> CHR ''.'') (rev file)))
      in if stem = [] then file else stem)"

text \<open>
  Modelled from the spec: which matched files are build files, missing with \<open>./nodes\<close>:
  those named as a member of \<open>GRADLE_BUILD_FILES\<close>. The other matched files are the test
  source files.
\<close>

definition isBuildFile :: "string \<Rightarrow> bool" where
  "isBuildFile file = (basename file \<in> set GRADLE_BUILD_FILES)"

text \<open>
  Modelled from the spec: the prefix that the paths under a project root share, missing
  with \<open>./nodes\<close>: the root followed by a slash. The root \<open>.\<close> of a build file at the top
  of the workspace is the directory every matched path is relative to, so every path lies
  under it.
\<close>

definition rootPrefix :: "string \<Rightarrow> string" where
  "rootPrefix projectRoot =
     (if projectRoot = ''.'' then []
      else if projectRoot = ''/'' then ''/''
      else projectRoot @ ''/'')"

text \<open>
  Modelled from the spec: strict root-prefix matching, missing with \<open>./nodes\<close>: a file is
  within the directory subtree of a project when its path starts with the prefix of the
  project root.
\<close>

definition inProjectSubtree :: "string \<Rightarrow> string \<Rightarrow> bool" where
  "inProjectSubtree projectRoot file = prefix (rootPrefix projectRoot) file"

text \<open>
  Modelled from the spec: to which project a test source file belongs, missing with
  \<open>./nodes\<close>. The projects are those of the matched build files. A file within the
  subtrees of several of them, one nested in the other, belongs to the innermost: the
  project whose subtree holds the file and whose root prefix is the longest among the
  roots whose subtrees hold it. A file of a nested project is a file of a different
  project for every project that encloses it.
\<close>

definition belongsToProject :: "string list \<Rightarrow> string \<Rightarrow> string \<Rightarrow> bool" where
  "belongsToProject projectRoots projectRoot file =
     (inProjectSubtree projectRoot file \<and>
      (\<forall>other \<in> set projectRoots.
          inProjectSubtree other file \<longrightarrow>
          length (rootPrefix other) \<le> length (rootPrefix projectRoot)))"

text \<open>
  Modelled from the spec: the base target of a task, missing with \<open>./nodes\<close>: the command
  \<open>./gradlew <project>:<task>\<close>, \<open>dependsOn = ["classes"]\<close>, the fixed inputs, and the
  cache flag, true unless atomization applies.
\<close>

definition baseTarget :: "string \<Rightarrow> string \<Rightarrow> bool \<Rightarrow> TargetDefinition" where
  "baseTarget gradleProject task cached =
     \<lparr> command = Some (''./gradlew '' @ gradleProject @ '':'' @ task),
       executor = None,
       dependsOn = [TargetName ''classes''],
       inputs = [''default'', ''^production''],
       cache = cached,
       metadata = \<lparr> description = None, nonAtomizedTarget = None,
                    technologies = [''gradle''] \<rparr> \<rparr>"

text \<open>
  Modelled from the spec: the name of an atomized target, missing with \<open>./nodes\<close>:
  \<open><ciTargetName>--<className>\<close>.
\<close>

definition atomizedTargetName :: "string \<Rightarrow> string \<Rightarrow> string" where
  "atomizedTargetName ci testFile = ci @ ''--'' @ className testFile"

text \<open>
  Modelled from the spec: the atomized target of a test source file, missing with
  \<open>./nodes\<close>: the command of the base target with \<open>--tests <className>\<close>, the same
  \<open>dependsOn\<close> and inputs, \<open>cache = true\<close>, and a description that cites the path.
\<close>

definition atomizedTarget :: "string \<Rightarrow> string \<Rightarrow> string \<Rightarrow> TargetDefinition" where
  "atomizedTarget gradleProject task testFile =
     \<lparr> command =
         Some (''./gradlew '' @ gradleProject @ '':'' @ task @ '' --tests '' @ className testFile),
       executor = None,
       dependsOn = [TargetName ''classes''],
       inputs = [''default'', ''^production''],
       cache = True,
       metadata = \<lparr> description = Some (''Runs Gradle test '' @ testFile @ '' in CI''),
                    nonAtomizedTarget = None,
                    technologies = [''gradle''] \<rparr> \<rparr>"

text \<open>
  Modelled from the spec: the umbrella target, missing with \<open>./nodes\<close>: executor
  \<open>nx:noop\<close>, one self-reference per atomized target in discovery order, \<open>cache = true\<close>,
  and metadata naming the task it stands for.
\<close>

definition umbrellaTarget :: "string \<Rightarrow> string \<Rightarrow> string list \<Rightarrow> TargetDefinition" where
  "umbrellaTarget ci task testFiles =
     \<lparr> command = None,
       executor = Some ''nx:noop'',
       dependsOn =
         map (\<lambda>testFile. TargetReference ''self'' (atomizedTargetName ci testFile) ''forward'')
           testFiles,
       inputs = [''default'', ''^production''],
       cache = True,
       metadata = \<lparr> description = Some ''Runs Gradle Tests in CI'',
                    nonAtomizedTarget = Some task,
                    technologies = [''gradle''] \<rparr> \<rparr>"

text \<open>
  Modelled from the spec: when atomization applies, missing with \<open>./nodes\<close>: the task type
  is \<open>Test\<close>, a CI target name is configured, and the project has a test source file of
  its own.
\<close>

definition atomizationApplies :: "string option \<Rightarrow> string \<Rightarrow> string list \<Rightarrow> bool" where
  "atomizationApplies ci taskType testFiles =
     (taskType = ''Test'' \<and> ci \<noteq> None \<and> testFiles \<noteq> [])"

text \<open>
  Modelled from the spec: adding target names to the group of a category, missing with
  \<open>./nodes\<close>: after the names the category already lists.
\<close>

definition appendToGroup ::
  "string \<Rightarrow> string list \<Rightarrow> (string \<times> string list) list \<Rightarrow> (string \<times> string list) list" where
  "appendToGroup category names groups =
     AList.update category
       ((case map_of groups category of None \<Rightarrow> [] | Some earlier \<Rightarrow> earlier) @ names) groups"

text \<open>
  Modelled from the spec: the targets of one task, missing with \<open>./nodes\<close>: the base
  target; and, when atomization applies, one atomized target per test source file of the
  project and the umbrella target, with the group of the task type listing the atomized
  names, the umbrella name and the base name, in this order. A target assigned under a
  name already present replaces the earlier one, as a property assignment does.
\<close>

definition addTask ::
  "string option \<Rightarrow> string \<Rightarrow> string list \<Rightarrow> string \<times> string
   \<Rightarrow> (string \<times> TargetDefinition) list \<times> (string \<times> string list) list
   \<Rightarrow> (string \<times> TargetDefinition) list \<times> (string \<times> string list) list" where
  "addTask ci gradleProject testFiles taskAndType acc =
     (let task = fst taskAndType; taskType = snd taskAndType;
          withBase = AList.update task
            (baseTarget gradleProject task (\<not> atomizationApplies ci taskType testFiles)) (fst acc)
      in case ci of
           None \<Rightarrow> (withBase, appendToGroup taskType [task] (snd acc))
         | Some ciName \<Rightarrow>
             if atomizationApplies ci taskType testFiles then
               (AList.update ciName (umbrellaTarget ciName task testFiles)
                  (fold (\<lambda>testFile. AList.update (atomizedTargetName ciName testFile)
                           (atomizedTarget gradleProject task testFile))
                     testFiles withBase),
                appendToGroup taskType
                  (map (atomizedTargetName ciName) testFiles @ [ciName, task]) (snd acc))
             else (withBase, appendToGroup taskType [task] (snd acc)))"

text \<open>
  Modelled from the spec: the result for one build file, missing with \<open>./nodes\<close>: its
  owning project from the report, the project root (the directory of the file), and the
  targets of every task of the project, built from the test source files that belong to
  the project, given the roots of all the matched build files. A build file the report
  does not know contributes no project.
\<close>

definition createNodesForBuildFile ::
  "GradleReport \<Rightarrow> GradlePluginOptions \<Rightarrow> string list \<Rightarrow> string list \<Rightarrow> string
   \<Rightarrow> NodeResult" where
  "createNodesForBuildFile report opts projectRoots testFiles buildFile =
     (case map_of (gradleFileToGradleProjectMap report) buildFile of
        None \<Rightarrow> \<lparr> result_projects = [] \<rparr>
      | Some gradleProject \<Rightarrow>
          (case map_of (gradleProjectToProjectName report) gradleProject of
             None \<Rightarrow> \<lparr> result_projects = [] \<rparr>
           | Some projectName \<Rightarrow>
               (let projectRoot = dirname buildFile;
                    tasks = (case map_of (gradleProjectToTasksTypeMap report) gradleProject of
                               None \<Rightarrow> [] | Some ts \<Rightarrow> ts);
                    ownTestFiles =
                      filter (belongsToProject projectRoots projectRoot) testFiles;
                    acc = fold (addTask (ciTargetName opts) gradleProject ownTestFiles) tasks
                            ([], [])
                in \<lparr> result_projects =
                     [(projectRoot,
                       \<lparr> project_name = projectName,
                         targets = fst acc,
                         project_metadata =
                           \<lparr> targetGroups = snd acc,
                             project_technologies = [''gradle''] \<rparr> \<rparr>)] \<rparr>)))"

text \<open>
  Modelled from the spec: the function of the Gradle \<open>createNodesV2\<close>, missing with
  \<open>./nodes\<close>: one entry per matched build file, in the order of the matched files. The
  project roots are the directories of the matched build files, the test source files
  are the other matched files. The report is the one \<open>getCurrentGradleReport\<close> returns.
\<close>

definition createNodesV2 ::
  "GradleReport \<Rightarrow> string list \<Rightarrow> GradlePluginOptions \<Rightarrow> (string \<times> NodeResult) list" where
  "createNodesV2 report files opts =
     map (\<lambda>buildFile.
            (buildFile,
             createNodesForBuildFile report opts
               (map dirname (filter isBuildFile files))
               (filter (\<lambda>f. \<not> isBuildFile f) files)
               buildFile))
       (filter isBuildFile files)"

text \<open>
  The test source files among the matched files that belong to the project of a build
  file: what \<open>createNodesV2\<close> atomizes for that build file.
\<close>

definition ownTestFiles :: "string list \<Rightarrow> string \<Rightarrow> string list" where
  "ownTestFiles files buildFile =
     filter (belongsToProject (map dirname (filter isBuildFile files)) (dirname buildFile))
       (filter (\<lambda>f. \<not> isBuildFile f) files)"

text \<open>Reading a result: the project at a root, one of its targets, one of its groups.\<close>

definition lookupProject ::
  "(string \<times> NodeResult) list \<Rightarrow> string \<Rightarrow> string \<Rightarrow> ProjectDefinition option" where
  "lookupProject results file projectRoot =
     (case map_of results file of
        None \<Rightarrow> None
      | Some r \<Rightarrow> map_of (result_projects r) projectRoot)"

definition lookupTarget ::
  "(string \<times> NodeResult) list \<Rightarrow> string \<Rightarrow> string \<Rightarrow> string \<Rightarrow> TargetDefinition option" where
  "lookupTarget results file projectRoot targetName =
     (case lookupProject results file projectRoot of
        None \<Rightarrow> None
      | Some p \<Rightarrow> map_of (targets p) targetName)"

definition lookupTargetGroup ::
  "(string \<times> NodeResult) list \<Rightarrow> string \<Rightarrow> string \<Rightarrow> string \<Rightarrow> string list option" where
  "lookupTargetGroup results file projectRoot category =
     (case lookupProject results file projectRoot of
        None \<Rightarrow> None
      | Some p \<Rightarrow> map_of (targetGroups (project_metadata p)) category)"

definition targetNames ::
  "(string \<times> NodeResult) list \<Rightarrow> string \<Rightarrow> string \<Rightarrow> string set" where
  "targetNames results file projectRoot =
     (case lookupProject results file projectRoot of
        None \<Rightarrow> {}
      | Some p \<Rightarrow> fst ` set (targets p))"

section \<open>Concrete inputs\<close>

text \<open>
  A fan-out utility, a plugin with the batched hook (it answers for the build file only,
  and throws a plain error on an empty batch) and a plugin with the legacy hook.
\<close>

definition example_createNodesFromFiles ::
  "(nat, unit, string, nat, string \<Rightarrow> nat) createNodesFromFiles" where
  "example_createNodesFromFiles f configFiles opts context =
     (if configFiles = []
      then Inl (AggregateCreateNodesError [(Some ''none'', OtherError ''no files'')] [])
      else Inr (map (\<lambda>file. (file, f file)) configFiles))"

definition example_batched_plugin ::
  "(nat, unit, string, nat, string \<Rightarrow> nat) NormalizedPlugin" where
  "example_batched_plugin =
     \<lparr> plugin_name = ''batched'',
       plugin_createNodes = None,
       plugin_createNodesV2 = Some (''**/build.gradle'', \<lambda>configFiles opts context.
         if configFiles = [] then Inl (OtherError ''boom'')
         else Inr (map (\<lambda>file. (file, length file))
                (filter (\<lambda>file. file = ''proj/build.gradle'') configFiles))),
       plugin_createDependencies = None,
       plugin_createMetadata = None,
       plugin_processProjectGraph = None \<rparr>"

definition example_legacy_plugin ::
  "(nat, unit, string, nat, string \<Rightarrow> nat) NormalizedPlugin" where
  "example_legacy_plugin =
     \<lparr> plugin_name = ''legacy'',
       plugin_createNodes = Some (''**/package.json'', length),
       plugin_createNodesV2 = None,
       plugin_createDependencies = None,
       plugin_createMetadata = None,
       plugin_processProjectGraph = None \<rparr>"

text \<open>
  Surroundings in which the module \<open>missing\<close> cannot be found, the worker of \<open>broken\<close>
  crashes, and every other plugin loads as itself.
\<close>

definition example_externals ::
  "(nat, string, nat PluginConfiguration, string) Externals" where
  "example_externals =
     \<lparr> module_dirname = ''/nx/src/project-graph/plugins'',
       join = (\<lambda>a b. a @ ''/'' @ b),
       shouldMergeAngularProjects = (\<lambda>r includeProjectsFromAngularJson. False),
       workspaceRoot = ''/ws'',
       env = Map.empty,
       loadNxPluginInIsolation = (\<lambda>plugin r.
         if plugin = PluginString ''missing'' then Inl ''cannot find module''
         else if plugin = PluginString ''broken''
           then Inr (Inl ''worker crashed'', ''cleanup broken'')
         else Inr (Inr plugin, ''cleanup'')),
       loadNxPlugin = (\<lambda>plugin r. Inl ''not isolated''),
       unregisterPluginTSTranspiler = None \<rparr>"

text \<open>The reports and file lists of the first and the third test of \<open>nodes.spec.ts\<close>.\<close>

definition proj_report :: GradleReport where
  "proj_report =
     \<lparr> gradleFileToGradleProjectMap = [(''proj/build.gradle'', ''proj'')],
       buildFileToDepsMap = [],
       gradleFileToOutputDirsMap = [(''proj/build.gradle'', [(''build'', ''build'')])],
       gradleProjectToTasksTypeMap = [(''proj'', [(''test'', ''Verification'')])],
       gradleProjectToProjectName = [(''proj'', ''proj'')] \<rparr>"

definition nested_report :: GradleReport where
  "nested_report =
     \<lparr> gradleFileToGradleProjectMap = [(''nested/nested/proj/build.gradle'', ''proj'')],
       buildFileToDepsMap = [],
       gradleFileToOutputDirsMap =
         [(''nested/nested/proj/build.gradle'', [(''build'', ''build'')])],
       gradleProjectToTasksTypeMap = [(''proj'', [(''test'', ''Test'')])],
       gradleProjectToProjectName = [(''proj'', ''proj'')] \<rparr>"

text \<open>
  A project \<open>a\<close> that encloses a project \<open>a/b\<close>, each with a test source file; and a
  project at the top of the workspace.
\<close>

definition enclosing_report :: GradleReport where
  "enclosing_report =
     \<lparr> gradleFileToGradleProjectMap = [(''a/build.gradle'', ''a''), (''a/b/build.gradle'', ''b'')],
       buildFileToDepsMap = [],
       gradleFileToOutputDirsMap = [],
       gradleProjectToTasksTypeMap =
         [(''a'', [(''test'', ''Test'')]), (''b'', [(''test'', ''Test'')])],
       gradleProjectToProjectName = [(''a'', ''a''), (''b'', ''b'')] \<rparr>"

definition enclosing_files :: "string list" where
  "enclosing_files =
     [''a/build.gradle'', ''a/b/build.gradle'',
      ''a/src/test/java/ATest.java'', ''a/b/src/test/java/BTest.java'']"

definition top_report :: GradleReport where
  "top_report =
     \<lparr> gradleFileToGradleProjectMap = [(''build.gradle'', ''top'')],
       buildFileToDepsMap = [],
       gradleFileToOutputDirsMap = [],
       gradleProjectToTasksTypeMap = [(''top'', [(''test'', ''Test'')])],
       gradleProjectToProjectName = [(''top'', ''top'')] \<rparr>"

definition top_files :: "string list" where
  "top_files = [''build.gradle'', ''src/test/java/RootTest.java'']"

definition nested_files :: "string list" where
  "nested_files =
     [''nested/nested/proj/build.gradle'',
      ''proj/src/test/java/test/rootTest.java'',
      ''nested/nested/proj/src/test/java/test/test.java'',
      ''nested/nested/proj/src/test/java/test/test1.java'']"

text \<open>
  A list of targets cites only the files of \<open>own\<close>: every description of the form
  \<open>Runs Gradle test <file> in CI\<close> in it names a member of \<open>own\<close>.
\<close>

definition citesOnly :: "string list \<Rightarrow> (string \<times> TargetDefinition) list \<Rightarrow> bool" where
  "citesOnly own ts =
     (\<forall>n t f. (n, t) \<in> set ts \<and>
        description (metadata t) = Some (''Runs Gradle test '' @ f @ '' in CI'') \<longrightarrow> f \<in> set own)"

section \<open>Auxiliary facts\<close>

subsection \<open>The adapter\<close>

lemma LoadedNxPlugin_name: "name (LoadedNxPlugin cnff plugin d) = plugin_name plugin"
  by (simp add: LoadedNxPlugin_def Let_def)

lemma invoke_v2:
  assumes "plugin_createNodesV2 plugin = Some v2"
  shows "invokeCreateNodes (LoadedNxPlugin cnff plugin d) files ctx perf =
     Some (case snd v2 files (options (LoadedNxPlugin cnff plugin d)) ctx of
             Inl e \<Rightarrow> if isAggregateCreateNodesError e then Inl e
                      else Inl (AggregateCreateNodesError [(None, e)] [])
           | Inr rs \<Rightarrow> Inr (map (\<lambda>r. (plugin_name plugin, fst r, snd r)) rs))"
  using assms
  by (simp add: invokeCreateNodes_def LoadedNxPlugin_def normalizedCreateNodes_def
      instrumented_def Let_def split: sum.splits option.splits)

lemma invoke_legacy:
  assumes "plugin_createNodesV2 plugin = None" "plugin_createNodes plugin = Some cn"
  shows "invokeCreateNodes (LoadedNxPlugin cnff plugin d) files ctx perf =
     Some (case cnff (snd cn) files (options (LoadedNxPlugin cnff plugin d)) ctx of
             Inl e \<Rightarrow> if isAggregateCreateNodesError e then Inl e
                      else Inl (AggregateCreateNodesError [(None, e)] [])
           | Inr rs \<Rightarrow> Inr (map (\<lambda>r. (plugin_name plugin, fst r, snd r)) rs))"
  using assms
  by (simp add: invokeCreateNodes_def LoadedNxPlugin_def normalizedCreateNodes_def
      instrumented_def Let_def split: sum.splits option.splits)

subsection \<open>Callbacks and Promise.all\<close>

lemma run_callbacks_rejects:
  "(i, Inl e) \<in> set xs \<Longrightarrow> \<exists>e'. run_callbacks xs st = Inl e'"
  by (induction xs st rule: run_callbacks.induct) auto

lemma run_callbacks_fulfils:
  "\<forall>x \<in> set xs. \<exists>v. snd x = Inr v \<Longrightarrow> \<exists>st'. run_callbacks xs st = Inr st'"
  by (induction xs st rule: run_callbacks.induct) auto

lemma run_callbacks_result:
  assumes "run_callbacks xs (res, cs) = Inr (res', cs')"
    and "\<forall>x \<in> set xs. snd x = F (fst x)"
  shows "length res' = length res \<and>
         (\<forall>i < length res. i \<in> fst ` set xs \<longrightarrow> (\<exists>p c. F i = Inr (p, c) \<and> res' ! i = Some p)) \<and>
         (\<forall>i < length res. i \<notin> fst ` set xs \<longrightarrow> res' ! i = res ! i)"
  using assms
proof (induction xs "(res, cs)" arbitrary: res cs rule: run_callbacks.induct)
  case 1
  then show ?case by simp
next
  case (2 idx e rest)
  then show ?case by simp
next
  case (3 idx p cleanup rest result cleanupFunctions)
  let ?res1 = "result[idx := Some p]"
  from 3 have run: "run_callbacks rest (?res1, cleanupFunctions @ [cleanup]) = Inr (res', cs')"
    and F: "\<forall>x \<in> set rest. snd x = F (fst x)" and Fi: "F idx = Inr (p, cleanup)"
    by auto
  from 3(1)[OF run F] have
    len: "length res' = length ?res1" and
    hit: "\<forall>i < length ?res1. i \<in> fst ` set rest \<longrightarrow> (\<exists>p c. F i = Inr (p, c) \<and> res' ! i = Some p)" and
    miss: "\<forall>i < length ?res1. i \<notin> fst ` set rest \<longrightarrow> res' ! i = ?res1 ! i"
    by blast+
  show ?case
  proof (intro conjI allI impI)
    show "length res' = length result" using len by simp
  next
    fix i assume i: "i < length result" and mem: "i \<in> fst ` set ((idx, Inr (p, cleanup)) # rest)"
    show "\<exists>p c. F i = Inr (p, c) \<and> res' ! i = Some p"
    proof (cases "i \<in> fst ` set rest")
      case True
      with hit i show ?thesis by simp
    next
      case False
      with mem have "i = idx" by auto
      moreover from miss False i have "res' ! i = ?res1 ! i" by simp
      ultimately show ?thesis using Fi i by simp
    qed
  next
    fix i assume i: "i < length result" and nmem: "i \<notin> fst ` set ((idx, Inr (p, cleanup)) # rest)"
    then have "i \<notin> fst ` set rest" "i \<noteq> idx" by auto
    with miss i show "res' ! i = result ! i" by simp
  qed
qed

lemma run_started:
  assumes "run_callbacks (sort_key (\<lambda>cb. w (fst cb)) (map (\<lambda>idx. (idx, G idx)) [0..<n]))
             (replicate n None, []) = Inr (res, cs)"
  shows "length res = n" and "j < n \<Longrightarrow> \<exists>p c. G j = Inr (p, c) \<and> res ! j = Some p"
proof -
  let ?sorted = "sort_key (\<lambda>cb. w (fst cb)) (map (\<lambda>idx. (idx, G idx)) [0..<n])"
  have F: "\<forall>x \<in> set ?sorted. snd x = G (fst x)" by auto
  note R = run_callbacks_result[OF assms F]
  from R show "length res = n" by simp
  assume j: "j < n"
  then have "(j, G j) \<in> set ?sorted" by simp
  then have "j \<in> fst ` set ?sorted" by (rule image_eqI[rotated]) simp
  moreover from R have "\<forall>i<n. i \<in> fst ` set ?sorted \<longrightarrow>
      (\<exists>p c. G i = Inr (p, c) \<and> res ! i = Some p)"
    by (simp only: length_replicate) blast
  ultimately show "\<exists>p c. G j = Inr (p, c) \<and> res ! j = Some p"
    using j by blast
qed

lemma promise_all_rejects:
  assumes "i < length ps" "ps ! i = Some (Inl e)"
  shows "\<exists>e'. promise_all when ps = Inl e'"
proof -
  let ?g = "\<lambda>i. case ps ! i of Some (Inl e) \<Rightarrow> Some e | Some (Inr v) \<Rightarrow> None | None \<Rightarrow> None"
  have "i \<in> set (sort_key when [0..<length ps])" using assms(1) by simp
  moreover have "?g i = Some e" using assms(2) by simp
  ultimately have "e \<in> set (List.map_filter ?g (sort_key when [0..<length ps]))"
    unfolding map_filter_def by force
  then obtain e' es where "List.map_filter ?g (sort_key when [0..<length ps]) = e' # es"
    by (cases "List.map_filter ?g (sort_key when [0..<length ps])") auto
  then show ?thesis by (simp add: promise_all_def)
qed

lemma promise_all_fulfils:
  assumes "\<forall>i < length ps. ps ! i = Some (Inr (L i))"
  shows "promise_all when ps = Inr (map (\<lambda>i. Some (L i)) [0..<length ps])"
proof -
  let ?g = "\<lambda>i. case ps ! i of Some (Inl e) \<Rightarrow> Some e | Some (Inr v) \<Rightarrow> None | None \<Rightarrow> None"
  have "\<forall>i \<in> set (sort_key when [0..<length ps]). ?g i = None" using assms by simp
  then have "List.map_filter ?g (sort_key when [0..<length ps]) = []"
    unfolding map_filter_def by (simp add: filter_empty_conv)
  moreover have "map (\<lambda>p. case p of Some (Inr v) \<Rightarrow> Some v | Some (Inl e) \<Rightarrow> None | None \<Rightarrow> None) ps
      = map (\<lambda>i. Some (L i)) [0..<length ps]"
    using assms by (intro nth_equalityI) auto
  ultimately show ?thesis by (simp add: promise_all_def)
qed

lemma example_normalized:
  "normalizePlugins example_externals (Some ps) ''/ws'' =
    PluginString ''/nx/src/project-graph/plugins/../../plugins/project-json/build-nodes/package-json-next-to-project-json'' #
    ps @
    [PluginString ''/nx/src/project-graph/plugins/../../plugins/js'',
     PluginString ''/nx/src/project-graph/plugins/../../plugins/package-json-workspaces'',
     PluginString ''/nx/src/project-graph/plugins/../../plugins/project-json/build-nodes/project-json'']"
  by (simp add: normalizePlugins_def getDefaultPlugins_def example_externals_def)

lemma already_rejected_lowest_index:
  "promise_all (seen_at (\<lambda>idx. 5) (\<lambda>idx. 3 - idx) 2)
     [Some (Inl ''first''), Some (Inl ''second'') :: (string + nat) option] = Inl ''first''"
  by code_simp

lemma late_rejection_seen_when_it_settles:
  "promise_all (seen_at (\<lambda>idx. 5) (\<lambda>idx. 9 - idx) 2)
     [Some (Inl ''first''), Some (Inl ''second'') :: (string + nat) option] = Inl ''second''"
  by code_simp

subsection \<open>Prompt messages\<close>

lemma table_key_not_inherited:
  "messageOptions key = Some opts \<Longrightarrow> key \<notin> set Object_prototype_properties"
  by (auto simp: messageOptions_def Object_prototype_properties_def split: if_splits)

lemma getPrompt_inherited_key:
  "key \<in> set Object_prototype_properties \<Longrightarrow>
   getPrompt penv random key new_PromptMessages = (Inr None, new_PromptMessages)"
  by (cases "messageOptions key")
     (auto simp: getPrompt_def new_PromptMessages_def dest: table_key_not_inherited)

lemma getPrompt_without_docs_mode:
  "getPrompt Map.empty (9/10) ''constructor'' new_PromptMessages = (Inr None, new_PromptMessages)"
  "getPrompt Map.empty (9/10) ''__proto__'' new_PromptMessages = (Inr None, new_PromptMessages)"
  "fst (getPrompt Map.empty (9/10) ''other'' new_PromptMessages) = Inl TypeError"
  "map_sum id (map_option code)
     (fst (getPrompt Map.empty (9/10) ''setupCI'' new_PromptMessages)) = Inr (Some ''set-up-ci'')"
  by (simp_all add: getPrompt_def new_PromptMessages_def Object_prototype_properties_def
      messageOptions_def)

lemma getPrompt_docs:
  assumes docs: "penv ''NX_GENERATE_DOCS_PROCESS'' = Some ''true''"
    and inv: "\<forall>k. selectedMessages this k = None \<or> selectedMessages this k = Some 0"
  shows "fst (getPrompt penv random key this) =
           (case messageOptions key of
              None \<Rightarrow> if key \<in> set Object_prototype_properties then Inr None else Inl TypeError
            | Some opts \<Rightarrow> Inr (case opts of [] \<Rightarrow> None | m # ms \<Rightarrow> Some m))"
    and "\<forall>k. selectedMessages (snd (getPrompt penv random key this)) k = None \<or>
             selectedMessages (snd (getPrompt penv random key this)) k = Some 0"
proof -
  from inv have key: "selectedMessages this key = None \<or> selectedMessages this key = Some 0"
    by blast
  show "fst (getPrompt penv random key this) =
           (case messageOptions key of
              None \<Rightarrow> if key \<in> set Object_prototype_properties then Inr None else Inl TypeError
            | Some opts \<Rightarrow> Inr (case opts of [] \<Rightarrow> None | m # ms \<Rightarrow> Some m))"
  proof (cases "messageOptions key")
    case None
    with key docs show ?thesis
      by (auto simp: getPrompt_def Let_def)
  next
    case (Some opts)
    then have "key \<notin> set Object_prototype_properties" by (rule table_key_not_inherited)
    with Some key docs show ?thesis
      by (auto simp: getPrompt_def Let_def split: list.splits)
  qed
  from key docs inv
  show "\<forall>k. selectedMessages (snd (getPrompt penv random key this)) k = None \<or>
             selectedMessages (snd (getPrompt penv random key this)) k = Some 0"
    by (auto simp: getPrompt_def Let_def split: option.splits)
qed

lemma getPrompts_Cons:
  "fst (getPrompts penv ((key, random) # calls) this) =
     fst (getPrompt penv random key this) #
     fst (getPrompts penv calls (snd (getPrompt penv random key this)))"
  by (simp add: case_prod_beta)

lemma getPrompts_docs:
  assumes docs: "penv ''NX_GENERATE_DOCS_PROCESS'' = Some ''true''"
  shows "\<forall>k. selectedMessages this k = None \<or> selectedMessages this k = Some 0 \<Longrightarrow>
         fst (getPrompts penv calls this) =
           map (\<lambda>key. case messageOptions key of
                   None \<Rightarrow> if key \<in> set Object_prototype_properties then Inr None
                           else Inl TypeError
                 | Some opts \<Rightarrow> Inr (case opts of [] \<Rightarrow> None | m # ms \<Rightarrow> Some m))
               (map fst calls)"
proof (induction calls arbitrary: this)
  case Nil
  then show ?case by simp
next
  case (Cons call calls)
  obtain key random where call: "call = (key, random)" by (cases call)
  let ?this1 = "snd (getPrompt penv random key this)"
  note step = getPrompt_docs[where penv = penv and this = this and random = random and key = key,
      OF docs Cons.prems]
  from Cons.IH[where this = ?this1, OF step(2)] step(1)
  show ?case unfolding call getPrompts_Cons by simp
qed

lemma messageOptions_codes:
  "map_option (map code) (messageOptions ''setupCI'') =
     Some [''which-ci-provider'', ''set-up-ci'']"
  "map_option (map code) (messageOptions ''setupNxCloud'') = Some [''enable-caching'']"
  by (simp_all add: messageOptions_def)

subsection \<open>The Gradle provider\<close>

lemma set_update_subset: "set (AList.update k v al) \<subseteq> insert (k, v) (set al)"
  by (induction al) auto

lemma createNodesV2_lookup:
  "map_of (createNodesV2 report files opts) buildFile =
     (if buildFile \<in> set files \<and> isBuildFile buildFile
      then Some (createNodesForBuildFile report opts
                   (map dirname (filter isBuildFile files))
                   (filter (\<lambda>f. \<not> isBuildFile f) files) buildFile)
      else None)"
proof -
  have "map_of (map (\<lambda>b. (b, g b)) bs) b = (if b \<in> set bs then Some (g b) else None)"
    for g :: "string \<Rightarrow> NodeResult" and bs b
    by (induction bs) auto
  then show ?thesis by (simp add: createNodesV2_def)
qed

lemma createNodesForBuildFile_own:
  "createNodesForBuildFile report opts (map dirname (filter isBuildFile files))
     (filter (\<lambda>f. \<not> isBuildFile f) files) buildFile =
   (case map_of (gradleFileToGradleProjectMap report) buildFile of
      None \<Rightarrow> \<lparr> result_projects = [] \<rparr>
    | Some gradleProject \<Rightarrow>
        (case map_of (gradleProjectToProjectName report) gradleProject of
           None \<Rightarrow> \<lparr> result_projects = [] \<rparr>
         | Some projectName \<Rightarrow>
             \<lparr> result_projects =
                 [(dirname buildFile,
                   \<lparr> project_name = projectName,
                     targets = fst (fold (addTask (ciTargetName opts) gradleProject
                         (ownTestFiles files buildFile))
                       (case map_of (gradleProjectToTasksTypeMap report) gradleProject of
                          None \<Rightarrow> [] | Some ts \<Rightarrow> ts) ([], [])),
                     project_metadata =
                       \<lparr> targetGroups = snd (fold (addTask (ciTargetName opts) gradleProject
                             (ownTestFiles files buildFile))
                           (case map_of (gradleProjectToTasksTypeMap report) gradleProject of
                              None \<Rightarrow> [] | Some ts \<Rightarrow> ts) ([], [])),
                         project_technologies = [''gradle''] \<rparr> \<rparr>)] \<rparr>))"
  unfolding createNodesForBuildFile_def ownTestFiles_def Let_def ..

lemma lookupProject_createNodesV2:
  assumes "buildFile \<in> set files" "isBuildFile buildFile"
    and "map_of (gradleFileToGradleProjectMap report) buildFile = Some gradleProject"
    and "map_of (gradleProjectToProjectName report) gradleProject = Some projectName"
    and "map_of (gradleProjectToTasksTypeMap report) gradleProject = Some tasks"
  shows "lookupProject (createNodesV2 report files opts) buildFile (dirname buildFile) =
     Some \<lparr> project_name = projectName,
            targets = fst (fold (addTask (ciTargetName opts) gradleProject
                       (ownTestFiles files buildFile)) tasks ([], [])),
            project_metadata =
              \<lparr> targetGroups = snd (fold (addTask (ciTargetName opts) gradleProject
                       (ownTestFiles files buildFile)) tasks ([], [])),
                project_technologies = [''gradle''] \<rparr> \<rparr>"
  using assms
  by (simp add: lookupProject_def createNodesV2_lookup createNodesForBuildFile_own)

lemma set_fold_update_subset:
  "set (fold (\<lambda>f. AList.update (k f) (v f)) fs al) \<subseteq> set al \<union> (\<lambda>f. (k f, v f)) ` set fs"
proof (induction fs arbitrary: al)
  case Nil
  then show ?case by simp
next
  case (Cons f fs)
  have "set (fold (\<lambda>f. AList.update (k f) (v f)) fs (AList.update (k f) (v f) al))
      \<subseteq> set (AList.update (k f) (v f) al) \<union> (\<lambda>f. (k f, v f)) ` set fs"
    by (rule Cons.IH)
  also have "\<dots> \<subseteq> insert (k f, v f) (set al) \<union> (\<lambda>f. (k f, v f)) ` set fs"
    using set_update_subset[of "k f" "v f" al] by blast
  finally show ?case by auto
qed

lemma citesOnly_update:
  assumes "citesOnly own ts"
    and "\<And>f. description (metadata v) = Some (''Runs Gradle test '' @ f @ '' in CI'') \<Longrightarrow> f \<in> set own"
  shows "citesOnly own (AList.update k v ts)"
  unfolding citesOnly_def
proof (intro allI impI)
  fix n t f
  assume a: "(n, t) \<in> set (AList.update k v ts) \<and>
        description (metadata t) = Some (''Runs Gradle test '' @ f @ '' in CI'')"
  then have "(n, t) = (k, v) \<or> (n, t) \<in> set ts" using set_update_subset[of k v ts] by blast
  then show "f \<in> set own"
  proof
    assume "(n, t) = (k, v)"
    with a assms(2) show ?thesis by simp
  next
    assume "(n, t) \<in> set ts"
    with a assms(1) show ?thesis unfolding citesOnly_def by blast
  qed
qed

lemma citesOnly_fold_atomized:
  assumes "citesOnly own ts" "set fs \<subseteq> set own"
  shows "citesOnly own
           (fold (\<lambda>testFile. AList.update (atomizedTargetName ci testFile)
                    (atomizedTarget g task testFile)) fs ts)"
  using assms
proof (induction fs arbitrary: ts)
  case Nil
  then show ?case by simp
next
  case (Cons f fs)
  have "citesOnly own (AList.update (atomizedTargetName ci f) (atomizedTarget g task f) ts)"
    using Cons.prems by (intro citesOnly_update) (auto simp: atomizedTarget_def)
  with Cons show ?case by simp
qed

lemma citesOnly_addTask:
  assumes "citesOnly own (fst acc)"
  shows "citesOnly own (fst (addTask ci g own taskAndType acc))"
proof -
  have base: "citesOnly own (AList.update (fst taskAndType)
      (baseTarget g (fst taskAndType) c) (fst acc))" for c
    using assms by (intro citesOnly_update) (auto simp: baseTarget_def)
  show ?thesis
  proof (cases ci)
    case None
    with base show ?thesis by (simp add: addTask_def Let_def)
  next
    case (Some ciName)
    have "citesOnly own
        (AList.update ciName (umbrellaTarget ciName (fst taskAndType) own)
           (fold (\<lambda>testFile. AList.update (atomizedTargetName ciName testFile)
                    (atomizedTarget g (fst taskAndType) testFile)) own
              (AList.update (fst taskAndType) (baseTarget g (fst taskAndType) c) (fst acc))))" for c
      by (intro citesOnly_update citesOnly_fold_atomized base) (auto simp: umbrellaTarget_def)
    with base Some show ?thesis by (simp add: addTask_def Let_def)
  qed
qed

lemma citesOnly_fold_addTask:
  "citesOnly own (fst acc) \<Longrightarrow> citesOnly own (fst (fold (addTask ci g own) tasks acc))"
proof (induction tasks arbitrary: acc)
  case Nil
  then show ?case by simp
next
  case (Cons taskAndType tasks)
  from Cons.prems have "citesOnly own (fst (addTask ci g own taskAndType acc))"
    by (rule citesOnly_addTask)
  from Cons.IH[OF this] show ?case by simp
qed

lemma lookupProject_Some:
  assumes "lookupProject (createNodesV2 report files opts) buildFile projectRoot = Some p"
  shows "\<exists>g tasks. projectRoot = dirname buildFile \<and>
     targets p = fst (fold (addTask (ciTargetName opts) g (ownTestFiles files buildFile))
        tasks ([], []))"
proof -
  from assms obtain g where
    "projectRoot = dirname buildFile \<and>
     targets p = fst (fold (addTask (ciTargetName opts) g (ownTestFiles files buildFile))
        (case map_of (gradleProjectToTasksTypeMap report) g of None \<Rightarrow> [] | Some ts \<Rightarrow> ts)
        ([], []))"
    by (auto simp: lookupProject_def createNodesV2_lookup createNodesForBuildFile_own
        split: if_splits option.splits)
  then show ?thesis by blast
qed

lemma ownTestFiles_removeAll:
  assumes "\<not> isBuildFile f"
    and "\<not> belongsToProject (map dirname (filter isBuildFile files)) (dirname buildFile) f"
  shows "ownTestFiles (removeAll f files) buildFile = ownTestFiles files buildFile"
proof -
  have builds: "filter isBuildFile (removeAll f files) = filter isBuildFile files"
    using assms(1) by (induction files) auto
  have "filter (belongsToProject roots (dirname buildFile))
          (filter (\<lambda>x. \<not> isBuildFile x) (removeAll f files)) =
        filter (belongsToProject roots (dirname buildFile))
          (filter (\<lambda>x. \<not> isBuildFile x) files)"
    if "\<not> belongsToProject roots (dirname buildFile) f" for roots
    using that by (induction files) auto
  from this[OF assms(2)] show ?thesis
    unfolding ownTestFiles_def builds .
qed

lemma outside_file_ignored:
  assumes "\<not> isBuildFile f"
    and "\<not> belongsToProject (map dirname (filter isBuildFile files)) (dirname buildFile) f"
  shows "map_of (createNodesV2 report (removeAll f files) opts) buildFile =
         map_of (createNodesV2 report files opts) buildFile"
proof -
  have mem: "buildFile \<in> set (removeAll f files) \<and> isBuildFile buildFile \<longleftrightarrow>
             buildFile \<in> set files \<and> isBuildFile buildFile"
    using assms(1) by auto
  show ?thesis
    unfolding createNodesV2_lookup createNodesForBuildFile_own
      ownTestFiles_removeAll[OF assms]
    using mem by simp
qed

lemma belongsToProject_files:
  "belongsToProject (map dirname (filter isBuildFile files)) projectRoot f \<longleftrightarrow>
     prefix (rootPrefix projectRoot) f \<and>
     (\<forall>other \<in> set files. isBuildFile other \<and> prefix (rootPrefix (dirname other)) f \<longrightarrow>
        length (rootPrefix (dirname other)) \<le> length (rootPrefix projectRoot))"
  by (auto simp: belongsToProject_def inProjectSubtree_def)

lemma nested_build_file:
  "isBuildFile ''nested/nested/proj/build.gradle''"
  "dirname ''nested/nested/proj/build.gradle'' = ''nested/nested/proj''"
  by (simp_all add: isBuildFile_def basename_def GRADLE_BUILD_FILES_def dirname_def)

lemma nested_test_files:
  "filter (\<lambda>f. \<not> isBuildFile f) nested_files =
     [''proj/src/test/java/test/rootTest.java'',
      ''nested/nested/proj/src/test/java/test/test.java'',
      ''nested/nested/proj/src/test/java/test/test1.java'']"
  by (simp add: nested_files_def isBuildFile_def basename_def GRADLE_BUILD_FILES_def)

lemma nested_roots:
  "map dirname (filter isBuildFile nested_files) = [''nested/nested/proj'']"
  by (simp add: nested_files_def isBuildFile_def basename_def GRADLE_BUILD_FILES_def dirname_def)

lemma nested_own_test_files:
  "ownTestFiles nested_files ''nested/nested/proj/build.gradle'' =
     [''nested/nested/proj/src/test/java/test/test.java'',
      ''nested/nested/proj/src/test/java/test/test1.java'']"
  unfolding ownTestFiles_def nested_test_files nested_roots nested_build_file(2)
  by (simp add: belongsToProject_def inProjectSubtree_def rootPrefix_def)

lemma nested_class_names:
  "className ''nested/nested/proj/src/test/java/test/test.java'' = ''test''"
  "className ''nested/nested/proj/src/test/java/test/test1.java'' = ''test1''"
  by (simp_all add: className_def basename_def)

lemma nested_lookup:
  "lookupProject (createNodesV2 nested_report nested_files
        \<lparr> buildTargetName = Some ''build'', ciTargetName = Some ''test-ci'' \<rparr>)
     ''nested/nested/proj/build.gradle'' ''nested/nested/proj'' =
   Some \<lparr> project_name = ''proj'',
            targets = fst (fold (addTask (Some ''test-ci'') ''proj''
                       [''nested/nested/proj/src/test/java/test/test.java'',
                        ''nested/nested/proj/src/test/java/test/test1.java''])
                     [(''test'', ''Test'')] ([], [])),
            project_metadata =
              \<lparr> targetGroups = snd (fold (addTask (Some ''test-ci'') ''proj''
                       [''nested/nested/proj/src/test/java/test/test.java'',
                        ''nested/nested/proj/src/test/java/test/test1.java''])
                     [(''test'', ''Test'')] ([], [])),
                project_technologies = [''gradle''] \<rparr> \<rparr>"
proof -
  have "''nested/nested/proj/build.gradle'' \<in> set nested_files"
    by (simp add: nested_files_def)
  moreover have
    "map_of (gradleFileToGradleProjectMap nested_report) ''nested/nested/proj/build.gradle'' =
       Some ''proj''"
    "map_of (gradleProjectToProjectName nested_report) ''proj'' = Some ''proj''"
    "map_of (gradleProjectToTasksTypeMap nested_report) ''proj'' = Some [(''test'', ''Test'')]"
    by (simp_all add: nested_report_def)
  ultimately show ?thesis
    using lookupProject_createNodesV2
      [where files = nested_files and buildFile = "''nested/nested/proj/build.gradle''"
         and report = nested_report and gradleProject = "''proj''" and projectName = "''proj''"
         and tasks = "[(''test'', ''Test'')]"
         and opts = "\<lparr> buildTargetName = Some ''build'', ciTargetName = Some ''test-ci'' \<rparr>",
       unfolded nested_own_test_files nested_build_file(2)]
      nested_build_file(1)
    by simp
qed

lemma enclosing_own_test_files:
  "ownTestFiles enclosing_files ''a/build.gradle'' = [''a/src/test/java/ATest.java'']"
  "ownTestFiles enclosing_files ''a/b/build.gradle'' = [''a/b/src/test/java/BTest.java'']"
  by (simp_all add: ownTestFiles_def enclosing_files_def isBuildFile_def basename_def
      GRADLE_BUILD_FILES_def dirname_def belongsToProject_def inProjectSubtree_def
      rootPrefix_def)

lemma enclosing_targets:
  "targetNames
     (createNodesV2 enclosing_report enclosing_files
        \<lparr> buildTargetName = None, ciTargetName = Some ''test-ci'' \<rparr>)
     ''a/build.gradle'' ''a'' = {''test'', ''test-ci--ATest'', ''test-ci''}"
  "targetNames
     (createNodesV2 enclosing_report enclosing_files
        \<lparr> buildTargetName = None, ciTargetName = Some ''test-ci'' \<rparr>)
     ''a/b/build.gradle'' ''a/b'' = {''test'', ''test-ci--BTest'', ''test-ci''}"
proof -
  have b: "isBuildFile ''a/build.gradle''" "isBuildFile ''a/b/build.gradle''"
    and d: "dirname ''a/build.gradle'' = ''a''" "dirname ''a/b/build.gradle'' = ''a/b''"
    by (simp_all add: isBuildFile_def basename_def GRADLE_BUILD_FILES_def dirname_def)
  have m: "''a/build.gradle'' \<in> set enclosing_files" "''a/b/build.gradle'' \<in> set enclosing_files"
    by (simp_all add: enclosing_files_def)
  have r: "map_of (gradleFileToGradleProjectMap enclosing_report) ''a/build.gradle'' = Some ''a''"
    "map_of (gradleFileToGradleProjectMap enclosing_report) ''a/b/build.gradle'' = Some ''b''"
    "map_of (gradleProjectToProjectName enclosing_report) ''a'' = Some ''a''"
    "map_of (gradleProjectToProjectName enclosing_report) ''b'' = Some ''b''"
    "map_of (gradleProjectToTasksTypeMap enclosing_report) ''a'' = Some [(''test'', ''Test'')]"
    "map_of (gradleProjectToTasksTypeMap enclosing_report) ''b'' = Some [(''test'', ''Test'')]"
    by (simp_all add: enclosing_report_def)
  note pa = lookupProject_createNodesV2[OF m(1) b(1) r(1) r(3) r(5),
      unfolded enclosing_own_test_files d]
  note pb = lookupProject_createNodesV2[OF m(2) b(2) r(2) r(4) r(6),
      unfolded enclosing_own_test_files d]
  show "targetNames
     (createNodesV2 enclosing_report enclosing_files
        \<lparr> buildTargetName = None, ciTargetName = Some ''test-ci'' \<rparr>)
     ''a/build.gradle'' ''a'' = {''test'', ''test-ci--ATest'', ''test-ci''}"
    by (simp add: targetNames_def pa addTask_def atomizationApplies_def Let_def
        atomizedTargetName_def className_def basename_def insert_commute)
  show "targetNames
     (createNodesV2 enclosing_report enclosing_files
        \<lparr> buildTargetName = None, ciTargetName = Some ''test-ci'' \<rparr>)
     ''a/b/build.gradle'' ''a/b'' = {''test'', ''test-ci--BTest'', ''test-ci''}"
    by (simp add: targetNames_def pb addTask_def atomizationApplies_def Let_def
        atomizedTargetName_def className_def basename_def insert_commute)
qed

lemma top_own_test_files:
  "ownTestFiles top_files ''build.gradle'' = [''src/test/java/RootTest.java'']"
  by (simp add: ownTestFiles_def top_files_def isBuildFile_def basename_def
      GRADLE_BUILD_FILES_def dirname_def belongsToProject_def inProjectSubtree_def
      rootPrefix_def)

lemma top_targets:
  "targetNames
     (createNodesV2 top_report top_files
        \<lparr> buildTargetName = None, ciTargetName = Some ''test-ci'' \<rparr>)
     ''build.gradle'' ''.'' = {''test'', ''test-ci--RootTest'', ''test-ci''}"
proof -
  have b: "isBuildFile ''build.gradle''" and d: "dirname ''build.gradle'' = ''.''"
    by (simp_all add: isBuildFile_def basename_def GRADLE_BUILD_FILES_def dirname_def)
  have m: "''build.gradle'' \<in> set top_files"
    by (simp add: top_files_def)
  have r: "map_of (gradleFileToGradleProjectMap top_report) ''build.gradle'' = Some ''top''"
    "map_of (gradleProjectToProjectName top_report) ''top'' = Some ''top''"
    "map_of (gradleProjectToTasksTypeMap top_report) ''top'' = Some [(''test'', ''Test'')]"
    by (simp_all add: top_report_def)
  note p = lookupProject_createNodesV2[OF m b r, unfolded top_own_test_files d]
  show ?thesis
    by (simp add: targetNames_def p addTask_def atomizationApplies_def Let_def
        atomizedTargetName_def className_def basename_def insert_commute)
qed

section \<open>The claims\<close>

text \<open>
  C3, plugin resolution order. For every list of user plugins the normalized list is the
  built-in \<open>package-json-next-to-project-json\<close>, then the user plugins in their
  order, then the default plugins: \<open>js\<close>, then \<open>angular-json\<close> exactly when
  \<open>shouldMergeAngularProjects(root, false)\<close> holds, then \<open>package-json-workspaces\<close>,
  then \<open>project-json\<close>.
\<close>

theorem normalizePlugins_order:
  "normalizePlugins ext (Some userPlugins) r =
     [PluginString (join ext (module_dirname ext)
        ''../../plugins/project-json/build-nodes/package-json-next-to-project-json'')] @
     userPlugins @
     [PluginString (join ext (module_dirname ext) ''../../plugins/js'')] @
     (if shouldMergeAngularProjects ext r False
      then [PluginString (join ext (module_dirname ext) ''../../adapter/angular-json'')]
      else []) @
     [PluginString (join ext (module_dirname ext) ''../../plugins/package-json-workspaces''),
      PluginString (join ext (module_dirname ext)
        ''../../plugins/project-json/build-nodes/project-json'')]"
  by (simp add: normalizePlugins_def getDefaultPlugins_def)

text \<open>
  C2, error containment. For a plugin with the batched hook, and for a plugin with only
  the legacy hook, if the underlying batched function (the hook itself, or
  \<open>createNodesFromFiles\<close> over the legacy hook) throws \<open>e\<close>, the call of the loaded
  plugin's function throws \<open>e\<close> itself when \<open>e\<close> is an aggregate error, and otherwise
  the aggregate error with the failure list \<open>[(null, e)]\<close> and no partial results.
\<close>

theorem adapter_error_containment:
  "(plugin_createNodesV2 plugin = Some hook2 \<and>
    snd hook2 files (options (LoadedNxPlugin cnff plugin d)) ctx = Inl e \<longrightarrow>
      invokeCreateNodes (LoadedNxPlugin cnff plugin d) files ctx perf =
        Some (Inl (if isAggregateCreateNodesError e then e
                   else AggregateCreateNodesError [(None, e)] []))) \<and>
   (plugin_createNodesV2 plugin = None \<and> plugin_createNodes plugin = Some hook1 \<and>
    cnff (snd hook1) files (options (LoadedNxPlugin cnff plugin d)) ctx = Inl e \<longrightarrow>
      invokeCreateNodes (LoadedNxPlugin cnff plugin d) files ctx perf =
        Some (Inl (if isAggregateCreateNodesError e then e
                   else AggregateCreateNodesError [(None, e)] [])))"
  by (simp add: invoke_v2 invoke_legacy)

text \<open>
  C2 on the example plugins: the batched one throws a plain error, which comes out
  wrapped; under the legacy one the fan-out throws an aggregate error, which comes out as it
  is.
\<close>

theorem adapter_error_containment_witness:
  "invokeCreateNodes
     (LoadedNxPlugin example_createNodesFromFiles example_batched_plugin (PluginString ''batched''))
     [] () [] =
     Some (Inl (AggregateCreateNodesError [(None, OtherError ''boom'')] [])) \<and>
   invokeCreateNodes
     (LoadedNxPlugin example_createNodesFromFiles example_legacy_plugin (PluginString ''legacy''))
     [] () [] =
     Some (Inl (AggregateCreateNodesError [(Some ''none'', OtherError ''no files'')] []))"
proof -
  have b2: "plugin_createNodesV2 example_batched_plugin =
      Some (''**/build.gradle'', \<lambda>configFiles opts context.
         if configFiles = [] then Inl (OtherError ''boom'')
         else Inr (map (\<lambda>file. (file, length file))
                (filter (\<lambda>file. file = ''proj/build.gradle'') configFiles)))"
    by (simp add: example_batched_plugin_def)
  have l1: "plugin_createNodesV2 example_legacy_plugin = None"
    and l2: "plugin_createNodes example_legacy_plugin = Some (''**/package.json'', length)"
    by (simp_all add: example_legacy_plugin_def)
  from adapter_error_containment
    [where plugin = example_batched_plugin and files = "[]"
       and cnff = example_createNodesFromFiles and d = "PluginString ''batched''" and ctx = "()"
       and e = "OtherError ''boom''" and perf = "[]"
       and ?hook2.0 = "(''**/build.gradle'', \<lambda>configFiles opts context.
         if configFiles = [] then Inl (OtherError ''boom'')
         else Inr (map (\<lambda>file. (file, length file))
                (filter (\<lambda>file. file = ''proj/build.gradle'') configFiles)))"]
    b2
  have a: "invokeCreateNodes
     (LoadedNxPlugin example_createNodesFromFiles example_batched_plugin (PluginString ''batched''))
     [] () [] =
     Some (Inl (AggregateCreateNodesError [(None, OtherError ''boom'')] []))"
    by simp
  from adapter_error_containment
    [where plugin = example_legacy_plugin and files = "[]"
       and cnff = example_createNodesFromFiles and d = "PluginString ''legacy''" and ctx = "()"
       and e = "AggregateCreateNodesError [(Some ''none'', OtherError ''no files'')] []"
       and perf = "[]" and ?hook1.0 = "(''**/package.json'', length)"]
    l1 l2
  have b: "invokeCreateNodes
     (LoadedNxPlugin example_createNodesFromFiles example_legacy_plugin (PluginString ''legacy''))
     [] () [] =
     Some (Inl (AggregateCreateNodesError [(Some ''none'', OtherError ''no files'')] []))"
    by (simp add: example_createNodesFromFiles_def)
  from a b show ?thesis by simp
qed

text \<open>
  C10, precedence of the batched hook. For a plugin that defines both hooks, the
  \<open>createNodes\<close> of the loaded plugin is the pattern of \<open>createNodesV2\<close> with the
  instrumented, tagging wrapper of its function; it is the same whatever the legacy hook
  and whatever \<open>createNodesFromFiles\<close> are, so neither is consulted.
\<close>

theorem createNodesV2_precedence:
  "createNodes (LoadedNxPlugin cnff
      (plugin\<lparr>plugin_createNodes := Some legacy, plugin_createNodesV2 := Some hook2\<rparr>) d) =
   Some (fst hook2,
     instrumented (plugin_name plugin)
       (\<lambda>configFiles context.
          case snd hook2 configFiles
                 (case d of PluginString s \<Rightarrow> None | PluginObject c \<Rightarrow> cfg_options c)
                 context of
            Inl e \<Rightarrow> Inl e
          | Inr result \<Rightarrow> Inr (map (\<lambda>r. (plugin_name plugin, fst r, snd r)) result))) \<and>
   createNodes (LoadedNxPlugin cnff
      (plugin\<lparr>plugin_createNodes := Some legacy, plugin_createNodesV2 := Some hook2\<rparr>) d) =
   createNodes (LoadedNxPlugin cnff'
      (plugin\<lparr>plugin_createNodes := legacy', plugin_createNodesV2 := Some hook2\<rparr>) d)"
  by (simp add: LoadedNxPlugin_def normalizedCreateNodes_def Let_def split: option.splits)

text \<open>
  C6 as stated fails: the loaded function of the example plugin, whose batched hook
  answers for the build file only (as the Gradle hook does in the third test of
  \<open>nodes.spec.ts\<close>), returns one entry for two input files.
\<close>

theorem adapter_result_shape_counterexample:
  "invokeCreateNodes
     (LoadedNxPlugin example_createNodesFromFiles example_batched_plugin (PluginString ''batched''))
     [''proj/build.gradle'', ''proj/src/test/java/test/test.java''] () [] =
   Some (Inr [(''batched'', ''proj/build.gradle'', 17)]) \<and>
   length [(''batched'', ''proj/build.gradle'', 17::nat)] \<noteq>
   length [''proj/build.gradle'', ''proj/src/test/java/test/test.java'']"
  by (simp add: invokeCreateNodes_def LoadedNxPlugin_def normalizedCreateNodes_def
      instrumented_def example_batched_plugin_def Let_def)

text \<open>
  C6, amended. When the underlying batched function returns the pairs \<open>rs\<close>, the
  loaded function returns one triple per pair of \<open>rs\<close>, in the order of \<open>rs\<close>: the
  pair with the name of the plugin in front. So every first component is the name of the
  plugin, and there is one entry per input file, in input order, whenever \<open>rs\<close> has one
  pair per input file in input order.
\<close>

theorem adapter_result_shape:
  "(plugin_createNodesV2 plugin = Some hook2 \<and>
    snd hook2 files (options (LoadedNxPlugin cnff plugin d)) ctx = Inr rs \<or>
    plugin_createNodesV2 plugin = None \<and> plugin_createNodes plugin = Some hook1 \<and>
    cnff (snd hook1) files (options (LoadedNxPlugin cnff plugin d)) ctx = Inr rs) \<longrightarrow>
   (\<exists>out. invokeCreateNodes (LoadedNxPlugin cnff plugin d) files ctx perf = Some (Inr out) \<and>
      out = map (\<lambda>r. (name (LoadedNxPlugin cnff plugin d), fst r, snd r)) rs \<and>
      length out = length rs \<and>
      map fst out = replicate (length rs) (plugin_name plugin) \<and>
      map snd out = rs \<and>
      (map fst rs = files \<longrightarrow> map (\<lambda>x. fst (snd x)) out = files \<and> length out = length files))"
  by (auto simp: invoke_v2 invoke_legacy LoadedNxPlugin_name comp_def map_replicate_const)

text \<open>
  C6, amended, on the example plugin with the legacy hook, whose fan-out answers once per
  file.
\<close>

theorem adapter_result_shape_witness:
  "invokeCreateNodes
     (LoadedNxPlugin example_createNodesFromFiles example_legacy_plugin (PluginString ''legacy''))
     [''a/package.json'', ''b/package.json''] () [] =
   Some (Inr [(''legacy'', ''a/package.json'', 14), (''legacy'', ''b/package.json'', 14)])"
proof -
  have l1: "plugin_createNodesV2 example_legacy_plugin = None"
    and l2: "plugin_createNodes example_legacy_plugin = Some (''**/package.json'', length)"
    by (simp_all add: example_legacy_plugin_def)
  have run: "example_createNodesFromFiles length [''a/package.json'', ''b/package.json'']
      (options (LoadedNxPlugin example_createNodesFromFiles example_legacy_plugin
         (PluginString ''legacy''))) () =
      Inr [(''a/package.json'', 14), (''b/package.json'', 14)]"
    by (simp add: example_createNodesFromFiles_def)
  from adapter_result_shape
    [where plugin = example_legacy_plugin
       and files = "[''a/package.json'', ''b/package.json'']"
       and cnff = example_createNodesFromFiles and d = "PluginString ''legacy''" and ctx = "()"
       and rs = "[(''a/package.json'', 14), (''b/package.json'', 14)]"
       and ?hook1.0 = "(''**/package.json'', length)" and perf = "[]"]
    l1 l2 run
  show ?thesis by (simp add: LoadedNxPlugin_name example_legacy_plugin_def)
qed

text \<open>
  C5, fail-fast loading. If the loading method rejects for one of the normalized plugins,
  or returns a promise of the loaded plugin that rejects, then \<open>loadNxPlugins\<close> rejects,
  in whatever order the loads complete: no list of plugins is returned.
\<close>

theorem loadNxPlugins_fail_fast:
  assumes r: "r = (case root_arg of None \<Rightarrow> workspaceRoot ext | Some x \<Rightarrow> x)"
    and i: "i < length (normalizePlugins ext plugins r)"
    and fails: "loadingMethod ext (normalizePlugins ext plugins r ! i) r = Inl e \<or>
         (\<exists>c. loadingMethod ext (normalizePlugins ext plugins r ! i) r = Inr (Inl e, c))"
  shows "\<exists>e'. fst (loadNxPlugins ext when_loaded when_ready plugins root_arg perf) = Inl e'"
proof -
  let ?ps = "normalizePlugins ext plugins r"
  let ?G = "\<lambda>idx. loadingMethod ext (?ps ! idx) r"
  let ?started = "map (\<lambda>idx. (idx, ?G idx)) [0..<length ?ps]"
  let ?sorted = "sort_key (\<lambda>cb. when_loaded (fst cb)) ?started"
  let ?st0 = "(replicate (length ?ps) None, [])"
  have mem: "(i, ?G i) \<in> set ?sorted" using i by (simp add: atLeast0LessThan)
  have F: "\<forall>x \<in> set ?sorted. snd x = ?G (fst x)" by auto
  show ?thesis
  proof (cases "run_callbacks ?sorted ?st0")
    case (Inl e1)
    then show ?thesis by (simp add: loadNxPlugins_def Let_def r[symmetric])
  next
    case (Inr st)
    obtain res cs where st: "st = (res, cs)" by (cases st)
    from fails have inner: "\<exists>c. ?G i = Inr (Inl e, c)"
    proof
      assume "?G i = Inl e"
      with mem have "(i, Inl e) \<in> set ?sorted" by simp
      from run_callbacks_rejects[OF this, of ?st0] Inr show ?thesis by auto
    qed
    note run = Inr[unfolded st]
    from run_started(1)[OF run] have len: "length res = length ?ps" .
    from run_started(2)[OF run i]
    obtain p c where "?G i = Inr (p, c)" "res ! i = Some p" by blast
    with inner have "res ! i = Some (Inl e)" by auto
    with promise_all_rejects[of i res e "seen_at when_loaded when_ready (length ?ps)"] len i
    obtain e' where "promise_all (seen_at when_loaded when_ready (length ?ps)) res = Inl e'"
      by auto
    with Inr st show ?thesis by (simp add: loadNxPlugins_def Let_def r[symmetric])
  qed
qed

text \<open>
  C5 on the example surroundings: a module that cannot be found, and a plugin whose worker
  crashes after the loading method has returned.
\<close>

theorem loadNxPlugins_fail_fast_witness:
  "(\<exists>e'. fst (loadNxPlugins example_externals (\<lambda>i. i) (\<lambda>i. i)
            (Some [PluginString ''@nx/gradle'', PluginString ''missing'']) None []) = Inl e') \<and>
   (\<exists>e'. fst (loadNxPlugins example_externals (\<lambda>i. 9 - i) (\<lambda>i. i)
            (Some [PluginString ''broken'', PluginString ''@nx/gradle'']) None []) = Inl e')"
proof -
  have lm: "loadingMethod example_externals = loadNxPluginInIsolation example_externals"
    by (simp add: loadingMethod_def example_externals_def)
  have a: "\<exists>e'. fst (loadNxPlugins example_externals (\<lambda>i. i) (\<lambda>i. i)
            (Some [PluginString ''@nx/gradle'', PluginString ''missing'']) None []) = Inl e'"
    by (rule loadNxPlugins_fail_fast[where r = "''/ws''" and i = 2 and e = "''cannot find module''"])
       (simp_all add: example_normalized lm, simp_all add: example_externals_def)
  have b: "\<exists>e'. fst (loadNxPlugins example_externals (\<lambda>i. 9 - i) (\<lambda>i. i)
            (Some [PluginString ''broken'', PluginString ''@nx/gradle'']) None []) = Inl e'"
    by (rule loadNxPlugins_fail_fast[where r = "''/ws''" and i = 1 and e = "''worker crashed''"])
       (simp_all add: example_normalized lm, simp_all add: example_externals_def)
  from a b show ?thesis by simp
qed

text \<open>
  C9, order of the result. If every load succeeds, the array \<open>loadNxPlugins\<close> returns
  holds at index \<open>i\<close> the plugin loaded for the \<open>i\<close>-th normalized specification, for
  every completion order \<open>when_loaded\<close> and \<open>when_ready\<close>.
\<close>

theorem loadNxPlugins_order:
  assumes r: "r = (case root_arg of None \<Rightarrow> workspaceRoot ext | Some x \<Rightarrow> x)"
    and ok: "\<forall>i < length (normalizePlugins ext plugins r).
         loadingMethod ext (normalizePlugins ext plugins r ! i) r = Inr (Inr (L i), C i)"
  shows "\<exists>cleanup. fst (loadNxPlugins ext when_loaded when_ready plugins root_arg perf) =
           Inr (map (\<lambda>i. Some (L i)) [0..<length (normalizePlugins ext plugins r)], cleanup)"
proof -
  let ?ps = "normalizePlugins ext plugins r"
  let ?G = "\<lambda>idx. loadingMethod ext (?ps ! idx) r"
  let ?started = "map (\<lambda>idx. (idx, ?G idx)) [0..<length ?ps]"
  let ?sorted = "sort_key (\<lambda>cb. when_loaded (fst cb)) ?started"
  let ?st0 = "(replicate (length ?ps) None, [])"
  have F: "\<forall>x \<in> set ?sorted. snd x = ?G (fst x)" by auto
  have "\<forall>x \<in> set ?sorted. \<exists>v. snd x = Inr v" using ok by auto
  from run_callbacks_fulfils[OF this]
  obtain res cs where run: "run_callbacks ?sorted ?st0 = Inr (res, cs)" by fastforce
  from run_started(1)[OF run] have len: "length res = length ?ps" .
  have "\<forall>j < length res. res ! j = Some (Inr (L j))"
  proof (intro allI impI)
    fix j assume j: "j < length res"
    then have "j < length ?ps" using len by simp
    from run_started(2)[OF run this]
    obtain p c where "?G j = Inr (p, c)" "res ! j = Some p" by blast
    with ok j len show "res ! j = Some (Inr (L j))" by simp
  qed
  from promise_all_fulfils[OF this, of "seen_at when_loaded when_ready (length ?ps)"] len
  have "promise_all (seen_at when_loaded when_ready (length ?ps)) res =
      Inr (map (\<lambda>i. Some (L i)) [0..<length ?ps])" by simp
  with run show ?thesis by (simp add: loadNxPlugins_def Let_def r[symmetric])
qed

text \<open>
  C9 on the example surroundings, with the loads completing in reverse order.
\<close>

theorem loadNxPlugins_order_witness:
  "\<exists>cleanup. fst (loadNxPlugins example_externals (\<lambda>i. 9 - i) (\<lambda>i. i mod 2)
            (Some [PluginString ''@nx/gradle'', PluginString ''@nx/nuxt/plugin'']) None []) =
     Inr (map (\<lambda>i. Some (normalizePlugins example_externals
                 (Some [PluginString ''@nx/gradle'', PluginString ''@nx/nuxt/plugin'']) ''/ws'' ! i))
            [0..<6], cleanup)"
proof -
  have lm: "loadingMethod example_externals = loadNxPluginInIsolation example_externals"
    by (simp add: loadingMethod_def example_externals_def)
  have len: "length (normalizePlugins example_externals
      (Some [PluginString ''@nx/gradle'', PluginString ''@nx/nuxt/plugin'']) ''/ws'') = 6"
    by (simp add: example_normalized)
  have ok: "\<forall>i < length (normalizePlugins example_externals
         (Some [PluginString ''@nx/gradle'', PluginString ''@nx/nuxt/plugin'']) ''/ws'').
       loadingMethod example_externals (normalizePlugins example_externals
         (Some [PluginString ''@nx/gradle'', PluginString ''@nx/nuxt/plugin'']) ''/ws'' ! i) ''/ws'' =
       Inr (Inr (normalizePlugins example_externals
         (Some [PluginString ''@nx/gradle'', PluginString ''@nx/nuxt/plugin'']) ''/ws'' ! i), ''cleanup'')"
    unfolding lm example_normalized
    by (simp add: example_externals_def nth_Cons' nth_append)
  have r: "''/ws'' = (case None of None \<Rightarrow> workspaceRoot example_externals | Some x \<Rightarrow> x)"
    by (simp add: example_externals_def)
  from loadNxPlugins_order[OF r ok, of "\<lambda>i. 9 - i" "\<lambda>i. i mod 2" "[]"] len
  show ?thesis by simp
qed

text \<open>
  C8, prompts in documentation mode. Take two runs, each on a new instance of
  \<open>PromptMessages\<close> and with \<open>NX_GENERATE_DOCS_PROCESS\<close> set to \<open>true\<close>, that ask for
  the same keys in the same order. Whatever \<open>Math.random\<close> would return in either run,
  both get the same answers, call by call; and every call whose key has message options
  in the table gets the message at index 0 of these options.
\<close>

theorem getPrompt_docs_mode_selects_first:
  assumes "penv1 ''NX_GENERATE_DOCS_PROCESS'' = Some ''true''"
    and "penv2 ''NX_GENERATE_DOCS_PROCESS'' = Some ''true''"
    and "map fst calls1 = map fst calls2"
  shows "fst (getPrompts penv1 calls1 new_PromptMessages) =
           fst (getPrompts penv2 calls2 new_PromptMessages) \<and>
         (\<forall>i opts. i < length calls1 \<and> messageOptions (fst (calls1 ! i)) = Some opts \<longrightarrow>
            fst (getPrompts penv1 calls1 new_PromptMessages) ! i =
              Inr (case opts of [] \<Rightarrow> None | m # ms \<Rightarrow> Some m))"
proof -
  have new: "\<forall>k. selectedMessages new_PromptMessages k = None \<or>
                selectedMessages new_PromptMessages k = Some 0"
    by (simp add: new_PromptMessages_def)
  note run1 = getPrompts_docs[where penv = penv1, OF assms(1) new, of calls1]
  note run2 = getPrompts_docs[where penv = penv2, OF assms(2) new, of calls2]
  from run1 run2 assms(3)
  have same: "fst (getPrompts penv1 calls1 new_PromptMessages) =
      fst (getPrompts penv2 calls2 new_PromptMessages)"
    by simp
  have first: "fst (getPrompts penv1 calls1 new_PromptMessages) ! i =
      Inr (case opts of [] \<Rightarrow> None | m # ms \<Rightarrow> Some m)"
    if "i < length calls1" and "messageOptions (fst (calls1 ! i)) = Some opts" for i opts
    using that unfolding run1 by simp
  show ?thesis
  proof (intro conjI allI impI)
    show "fst (getPrompts penv1 calls1 new_PromptMessages) =
      fst (getPrompts penv2 calls2 new_PromptMessages)" by (rule same)
  next
    fix i opts
    assume "i < length calls1 \<and> messageOptions (fst (calls1 ! i)) = Some opts"
    then show "fst (getPrompts penv1 calls1 new_PromptMessages) ! i =
        Inr (case opts of [] \<Rightarrow> None | m # ms \<Rightarrow> Some m)"
      by (elim conjE) (rule first)
  qed
qed

text \<open>
  C8 on two runs that ask for \<open>setupCI\<close>, \<open>setupNxCloud\<close>, \<open>setupCI\<close>, an unknown key
  and the inherited key \<open>constructor\<close>, with different random numbers: the same
  answers, and the first message of the table for the first three calls.
\<close>

theorem getPrompt_docs_mode_selects_first_witness:
  "fst (getPrompts [''NX_GENERATE_DOCS_PROCESS'' \<mapsto> ''true'']
        [(''setupCI'', 9/10), (''setupNxCloud'', 1/2), (''setupCI'', 1/10), (''other'', 0),
         (''constructor'', 1/3)]
        new_PromptMessages) =
   fst (getPrompts [''NX_GENERATE_DOCS_PROCESS'' \<mapsto> ''true'', ''CI'' \<mapsto> ''true'']
        [(''setupCI'', 1/10), (''setupNxCloud'', 0), (''setupCI'', 9/10), (''other'', 1/2),
         (''constructor'', 2/3)]
        new_PromptMessages) \<and>
   map_sum id (map_option code)
     (fst (getPrompts [''NX_GENERATE_DOCS_PROCESS'' \<mapsto> ''true'']
        [(''setupCI'', 9/10), (''setupNxCloud'', 1/2), (''setupCI'', 1/10), (''other'', 0),
         (''constructor'', 1/3)]
        new_PromptMessages) ! 0) = Inr (Some ''which-ci-provider'') \<and>
   map_sum id (map_option code)
     (fst (getPrompts [''NX_GENERATE_DOCS_PROCESS'' \<mapsto> ''true'']
        [(''setupCI'', 9/10), (''setupNxCloud'', 1/2), (''setupCI'', 1/10), (''other'', 0),
         (''constructor'', 1/3)]
        new_PromptMessages) ! 1) = Inr (Some ''enable-caching'') \<and>
   map_sum id (map_option code)
     (fst (getPrompts [''NX_GENERATE_DOCS_PROCESS'' \<mapsto> ''true'']
        [(''setupCI'', 9/10), (''setupNxCloud'', 1/2), (''setupCI'', 1/10), (''other'', 0),
         (''constructor'', 1/3)]
        new_PromptMessages) ! 2) = Inr (Some ''which-ci-provider'')"
proof -
  let ?calls1 = "[(''setupCI'', 9/10 :: real), (''setupNxCloud'', 1/2), (''setupCI'', 1/10),
    (''other'', 0), (''constructor'', 1/3)]"
  let ?calls2 = "[(''setupCI'', 1/10 :: real), (''setupNxCloud'', 0), (''setupCI'', 9/10),
    (''other'', 1/2), (''constructor'', 2/3)]"
  let ?run1 = "fst (getPrompts [''NX_GENERATE_DOCS_PROCESS'' \<mapsto> ''true''] ?calls1
    new_PromptMessages)"
  have docs1: "[''NX_GENERATE_DOCS_PROCESS'' \<mapsto> ''true''] ''NX_GENERATE_DOCS_PROCESS'' = Some ''true''"
    by simp
  have docs2: "[''NX_GENERATE_DOCS_PROCESS'' \<mapsto> ''true'', ''CI'' \<mapsto> ''true'']
      ''NX_GENERATE_DOCS_PROCESS'' = Some ''true''"
    by simp
  have keys: "map fst ?calls1 = map fst ?calls2"
    by simp
  note inst = getPrompt_docs_mode_selects_first
      [where ?penv1.0 = "[''NX_GENERATE_DOCS_PROCESS'' \<mapsto> ''true'']"
         and ?penv2.0 = "[''NX_GENERATE_DOCS_PROCESS'' \<mapsto> ''true'', ''CI'' \<mapsto> ''true'']",
       OF docs1 docs2 keys]
  note same = inst[THEN conjunct1]
  note first = inst[THEN conjunct2, rule_format, OF conjI]
  from messageOptions_codes(1) obtain ci where
    ci: "messageOptions ''setupCI'' = Some ci" "map code ci = [''which-ci-provider'', ''set-up-ci'']"
    by (cases "messageOptions ''setupCI''") simp_all
  from messageOptions_codes(2) obtain cloud where
    cloud: "messageOptions ''setupNxCloud'' = Some cloud" "map code cloud = [''enable-caching'']"
    by (cases "messageOptions ''setupNxCloud''") simp_all
  have a: "map_sum id (map_option code) (?run1 ! 0) = Inr (Some ''which-ci-provider'')"
    using first[of 0 ci] ci by (cases ci) simp_all
  have b: "map_sum id (map_option code) (?run1 ! 1) = Inr (Some ''enable-caching'')"
    using first[of 1 cloud] cloud by (cases cloud) simp_all
  have c: "map_sum id (map_option code) (?run1 ! 2) = Inr (Some ''which-ci-provider'')"
    using first[of 2 ci] ci by (cases ci) simp_all
  from same a b c show ?thesis by (intro conjI)
qed

text \<open>
  C7, the Gradle provider without a CI target name. For a build file among the matched
  files whose project has the single task \<open>test\<close>, of any type, the project has the
  target \<open>test\<close> and no other; it runs \<open>./gradlew <project>:test\<close>, depends on
  \<open>classes\<close>, is cached, and the group of its task type is \<open>[test]\<close>.
\<close>

theorem gradle_non_atomized:
  assumes "ciTargetName opts = None"
    and "buildFile \<in> set files" and "isBuildFile buildFile"
    and "map_of (gradleFileToGradleProjectMap report) buildFile = Some gradleProject"
    and "map_of (gradleProjectToProjectName report) gradleProject = Some projectName"
    and "map_of (gradleProjectToTasksTypeMap report) gradleProject = Some [(''test'', taskType)]"
  shows "targetNames (createNodesV2 report files opts) buildFile (dirname buildFile) = {''test''} \<and>
    lookupTarget (createNodesV2 report files opts) buildFile (dirname buildFile) ''test'' =
      Some \<lparr> command = Some (''./gradlew '' @ gradleProject @ '':test''),
             executor = None,
             dependsOn = [TargetName ''classes''],
             inputs = [''default'', ''^production''],
             cache = True,
             metadata = \<lparr> description = None, nonAtomizedTarget = None,
                          technologies = [''gradle''] \<rparr> \<rparr> \<and>
    lookupTargetGroup (createNodesV2 report files opts) buildFile (dirname buildFile) taskType =
      Some [''test'']"
  using assms(1)
  by (simp add: targetNames_def lookupTarget_def lookupTargetGroup_def
      lookupProject_createNodesV2[OF assms(2-6)] addTask_def atomizationApplies_def
      baseTarget_def appendToGroup_def Let_def)

text \<open>
  C7 on the first test of \<open>nodes.spec.ts\<close>.
\<close>

theorem gradle_non_atomized_witness:
  "targetNames
     (createNodesV2 proj_report [''proj/build.gradle'']
        \<lparr> buildTargetName = Some ''build'', ciTargetName = None \<rparr>)
     ''proj/build.gradle'' ''proj'' = {''test''} \<and>
   lookupTarget
     (createNodesV2 proj_report [''proj/build.gradle'']
        \<lparr> buildTargetName = Some ''build'', ciTargetName = None \<rparr>)
     ''proj/build.gradle'' ''proj'' ''test'' =
     Some \<lparr> command = Some ''./gradlew proj:test'',
            executor = None,
            dependsOn = [TargetName ''classes''],
            inputs = [''default'', ''^production''],
            cache = True,
            metadata = \<lparr> description = None, nonAtomizedTarget = None,
                         technologies = [''gradle''] \<rparr> \<rparr> \<and>
   lookupTargetGroup
     (createNodesV2 proj_report [''proj/build.gradle'']
        \<lparr> buildTargetName = Some ''build'', ciTargetName = None \<rparr>)
     ''proj/build.gradle'' ''proj'' ''Verification'' = Some [''test'']"
proof -
  have d: "dirname ''proj/build.gradle'' = ''proj''" by (simp add: dirname_def)
  have b: "isBuildFile ''proj/build.gradle''"
    by (simp add: isBuildFile_def basename_def GRADLE_BUILD_FILES_def)
  note t = gradle_non_atomized
    [where opts = "\<lparr> buildTargetName = Some ''build'', ciTargetName = None \<rparr>"
       and buildFile = "''proj/build.gradle''" and files = "[''proj/build.gradle'']"
       and report = proj_report and gradleProject = "''proj''" and projectName = "''proj''"
       and taskType = "''Verification''", unfolded d]
  have
    "map_of (gradleFileToGradleProjectMap proj_report) ''proj/build.gradle'' = Some ''proj''"
    "map_of (gradleProjectToProjectName proj_report) ''proj'' = Some ''proj''"
    "map_of (gradleProjectToTasksTypeMap proj_report) ''proj'' = Some [(''test'', ''Verification'')]"
    by (simp_all add: proj_report_def)
  with t b show ?thesis by simp
qed

text \<open>
  C1, Gradle atomization. For a build file among the matched files whose project has the
  single task \<open>test\<close> of type \<open>Test\<close>, with \<open>ciTargetName = test-ci\<close> and with two
  test source files of its own (within the subtree of the project root and of no project
  nested in it) whose class names are \<open>test\<close> and \<open>test1\<close>: the targets are \<open>test\<close>,
  \<open>test-ci--test\<close>, \<open>test-ci--test1\<close> and \<open>test-ci\<close>; the base target is not cached;
  each atomized target is cached and runs \<open>./gradlew <project>:test --tests <className>\<close>;
  the umbrella target has the executor \<open>nx:noop\<close>, is cached, depends on the two
  atomized targets by self-references in discovery order and names \<open>test\<close> as its
  non-atomized target; and the group \<open>Test\<close> is
  \<open>[test-ci--test, test-ci--test1, test-ci, test]\<close>.
\<close>

theorem gradle_atomized:
  assumes "ciTargetName opts = Some ''test-ci''"
    and "buildFile \<in> set files" and "isBuildFile buildFile"
    and "map_of (gradleFileToGradleProjectMap report) buildFile = Some gradleProject"
    and "map_of (gradleProjectToProjectName report) gradleProject = Some projectName"
    and "map_of (gradleProjectToTasksTypeMap report) gradleProject = Some [(''test'', ''Test'')]"
    and own: "ownTestFiles files buildFile = [testFileA, testFileB]"
    and c0: "className testFileA = ''test''" and c1: "className testFileB = ''test1''"
  shows "targetNames (createNodesV2 report files opts) buildFile (dirname buildFile) =
      {''test'', ''test-ci--test'', ''test-ci--test1'', ''test-ci''} \<and>
    lookupTarget (createNodesV2 report files opts) buildFile (dirname buildFile) ''test'' =
      Some \<lparr> command = Some (''./gradlew '' @ gradleProject @ '':test''),
             executor = None,
             dependsOn = [TargetName ''classes''],
             inputs = [''default'', ''^production''],
             cache = False,
             metadata = \<lparr> description = None, nonAtomizedTarget = None,
                          technologies = [''gradle''] \<rparr> \<rparr> \<and>
    lookupTarget (createNodesV2 report files opts) buildFile (dirname buildFile) ''test-ci--test'' =
      Some \<lparr> command = Some (''./gradlew '' @ gradleProject @ '':test --tests test''),
             executor = None,
             dependsOn = [TargetName ''classes''],
             inputs = [''default'', ''^production''],
             cache = True,
             metadata = \<lparr> description = Some (''Runs Gradle test '' @ testFileA @ '' in CI''),
                          nonAtomizedTarget = None,
                          technologies = [''gradle''] \<rparr> \<rparr> \<and>
    lookupTarget (createNodesV2 report files opts) buildFile (dirname buildFile) ''test-ci--test1'' =
      Some \<lparr> command = Some (''./gradlew '' @ gradleProject @ '':test --tests test1''),
             executor = None,
             dependsOn = [TargetName ''classes''],
             inputs = [''default'', ''^production''],
             cache = True,
             metadata = \<lparr> description = Some (''Runs Gradle test '' @ testFileB @ '' in CI''),
                          nonAtomizedTarget = None,
                          technologies = [''gradle''] \<rparr> \<rparr> \<and>
    lookupTarget (createNodesV2 report files opts) buildFile (dirname buildFile) ''test-ci'' =
      Some \<lparr> command = None,
             executor = Some ''nx:noop'',
             dependsOn = [TargetReference ''self'' ''test-ci--test'' ''forward'',
                          TargetReference ''self'' ''test-ci--test1'' ''forward''],
             inputs = [''default'', ''^production''],
             cache = True,
             metadata = \<lparr> description = Some ''Runs Gradle Tests in CI'',
                          nonAtomizedTarget = Some ''test'',
                          technologies = [''gradle''] \<rparr> \<rparr> \<and>
    lookupTargetGroup (createNodesV2 report files opts) buildFile (dirname buildFile) ''Test'' =
      Some [''test-ci--test'', ''test-ci--test1'', ''test-ci'', ''test'']"
  using assms(1) c0 c1
  by (simp add: targetNames_def lookupTarget_def lookupTargetGroup_def
      lookupProject_createNodesV2[OF assms(2-6), unfolded own] addTask_def atomizationApplies_def
      baseTarget_def appendToGroup_def atomizedTarget_def atomizedTargetName_def
      umbrellaTarget_def Let_def insert_commute)

text \<open>
  C1 on the third test of \<open>nodes.spec.ts\<close>, whose matched files include one file of
  another project.
\<close>

theorem gradle_atomized_witness:
  "targetNames
     (createNodesV2 nested_report nested_files
        \<lparr> buildTargetName = Some ''build'', ciTargetName = Some ''test-ci'' \<rparr>)
     ''nested/nested/proj/build.gradle'' ''nested/nested/proj'' =
     {''test'', ''test-ci--test'', ''test-ci--test1'', ''test-ci''} \<and>
   map_option cache (lookupTarget
     (createNodesV2 nested_report nested_files
        \<lparr> buildTargetName = Some ''build'', ciTargetName = Some ''test-ci'' \<rparr>)
     ''nested/nested/proj/build.gradle'' ''nested/nested/proj'' ''test'') = Some False \<and>
   map_option command (lookupTarget
     (createNodesV2 nested_report nested_files
        \<lparr> buildTargetName = Some ''build'', ciTargetName = Some ''test-ci'' \<rparr>)
     ''nested/nested/proj/build.gradle'' ''nested/nested/proj'' ''test-ci--test1'') =
     Some (Some ''./gradlew proj:test --tests test1'') \<and>
   lookupTargetGroup
     (createNodesV2 nested_report nested_files
        \<lparr> buildTargetName = Some ''build'', ciTargetName = Some ''test-ci'' \<rparr>)
     ''nested/nested/proj/build.gradle'' ''nested/nested/proj'' ''Test'' =
     Some [''test-ci--test'', ''test-ci--test1'', ''test-ci'', ''test'']"
proof -
  note t = gradle_atomized
    [where opts = "\<lparr> buildTargetName = Some ''build'', ciTargetName = Some ''test-ci'' \<rparr>"
       and buildFile = "''nested/nested/proj/build.gradle''" and files = nested_files
       and report = nested_report and gradleProject = "''proj''" and projectName = "''proj''"
       and testFileA = "''nested/nested/proj/src/test/java/test/test.java''"
       and testFileB = "''nested/nested/proj/src/test/java/test/test1.java''",
     unfolded nested_build_file(2)]
  have "ciTargetName \<lparr> buildTargetName = Some ''build'', ciTargetName = Some ''test-ci'' \<rparr> =
      Some ''test-ci''" by simp
  moreover have "''nested/nested/proj/build.gradle'' \<in> set nested_files"
    by (simp add: nested_files_def)
  moreover have
    "map_of (gradleFileToGradleProjectMap nested_report) ''nested/nested/proj/build.gradle'' =
       Some ''proj''"
    "map_of (gradleProjectToProjectName nested_report) ''proj'' = Some ''proj''"
    "map_of (gradleProjectToTasksTypeMap nested_report) ''proj'' = Some [(''test'', ''Test'')]"
    by (simp_all add: nested_report_def)
  ultimately show ?thesis
    using t nested_build_file(1) nested_own_test_files nested_class_names by simp
qed

text \<open>
  C4, strict root-prefix exclusion. The prefix of a project root is the root followed by
  a slash (empty for the root \<open>.\<close> at the top of the workspace). An atomized target of the
  project at \<open>projectRoot\<close> that cites the file \<open>f\<close> exists only if \<open>f\<close> is a matched
  file whose path starts with the prefix of \<open>projectRoot\<close> and with the prefix of no
  matched build file nested deeper. And a test source file \<open>f\<close> of a different project,
  one whose path does not start with the prefix of the root of \<open>buildFile\<close>, or starts
  with the longer prefix of another matched build file, yields nothing for
  \<open>buildFile\<close>: no target of its project cites \<open>f\<close>, and the result for \<open>buildFile\<close>
  is the same as without \<open>f\<close>.
\<close>

theorem atomized_only_within_subtree:
  "(lookupProject (createNodesV2 report files opts) buildFile projectRoot = Some p \<and>
    (n, t) \<in> set (targets p) \<and>
    description (metadata t) = Some (''Runs Gradle test '' @ f @ '' in CI'') \<longrightarrow>
      f \<in> set files \<and> prefix (rootPrefix projectRoot) f \<and>
      (\<forall>other \<in> set files.
          isBuildFile other \<and> prefix (rootPrefix (dirname other)) f \<longrightarrow>
          length (rootPrefix (dirname other)) \<le> length (rootPrefix projectRoot))) \<and>
   (\<not> isBuildFile f \<and>
    (\<not> prefix (rootPrefix (dirname buildFile)) f \<or>
     (\<exists>other \<in> set files.
         isBuildFile other \<and> prefix (rootPrefix (dirname other)) f \<and>
         length (rootPrefix (dirname buildFile)) < length (rootPrefix (dirname other)))) \<longrightarrow>
      (\<forall>q m u. lookupProject (createNodesV2 report files opts) buildFile (dirname buildFile) =
                   Some q \<and> (m, u) \<in> set (targets q) \<longrightarrow>
                 description (metadata u) \<noteq> Some (''Runs Gradle test '' @ f @ '' in CI'')) \<and>
      map_of (createNodesV2 report (removeAll f files) opts) buildFile =
      map_of (createNodesV2 report files opts) buildFile)"
proof -
  have cited: "f' \<in> set (ownTestFiles files buildFile) \<and> root = dirname buildFile"
    if "lookupProject (createNodesV2 report files opts) buildFile root = Some q"
      and "(m, u) \<in> set (targets q)"
      and "description (metadata u) = Some (''Runs Gradle test '' @ f' @ '' in CI'')"
    for root q m u f'
  proof -
    let ?own = "ownTestFiles files buildFile"
    from that(1) lookupProject_Some obtain g tasks where
      root: "root = dirname buildFile" and
      ts: "targets q = fst (fold (addTask (ciTargetName opts) g ?own) tasks ([], []))"
      by blast
    have "citesOnly ?own (fst (fold (addTask (ciTargetName opts) g ?own) tasks ([], [])))"
      by (rule citesOnly_fold_addTask) (simp add: citesOnly_def)
    with that(2,3) ts have "f' \<in> set ?own" unfolding citesOnly_def by metis
    with root show ?thesis by simp
  qed
  have own_iff: "f' \<in> set (ownTestFiles files buildFile) \<longleftrightarrow>
      f' \<in> set files \<and> \<not> isBuildFile f' \<and>
      belongsToProject (map dirname (filter isBuildFile files)) (dirname buildFile) f'" for f'
    by (auto simp: ownTestFiles_def)
  show ?thesis
  proof (intro conjI impI)
    assume a: "lookupProject (createNodesV2 report files opts) buildFile projectRoot = Some p \<and>
      (n, t) \<in> set (targets p) \<and>
      description (metadata t) = Some (''Runs Gradle test '' @ f @ '' in CI'')"
    then have "f \<in> set (ownTestFiles files buildFile)" and root: "projectRoot = dirname buildFile"
      using cited by blast+
    then have mem: "f \<in> set files"
      and own: "belongsToProject (map dirname (filter isBuildFile files)) projectRoot f"
      by (simp_all add: own_iff)
    from mem show "f \<in> set files" .
    from own show "prefix (rootPrefix projectRoot) f"
      unfolding belongsToProject_files by (rule conjunct1)
    from own show "\<forall>other \<in> set files.
          isBuildFile other \<and> prefix (rootPrefix (dirname other)) f \<longrightarrow>
          length (rootPrefix (dirname other)) \<le> length (rootPrefix projectRoot)"
      unfolding belongsToProject_files by (rule conjunct2)
  next
    assume b: "\<not> isBuildFile f \<and>
      (\<not> prefix (rootPrefix (dirname buildFile)) f \<or>
       (\<exists>other \<in> set files.
           isBuildFile other \<and> prefix (rootPrefix (dirname other)) f \<and>
           length (rootPrefix (dirname buildFile)) < length (rootPrefix (dirname other))))"
    then have nb: "\<not> isBuildFile f"
      and other: "\<not> belongsToProject (map dirname (filter isBuildFile files)) (dirname buildFile) f"
      unfolding belongsToProject_files by (simp, fastforce)
    show "\<forall>q m u. lookupProject (createNodesV2 report files opts) buildFile (dirname buildFile) =
                   Some q \<and> (m, u) \<in> set (targets q) \<longrightarrow>
                 description (metadata u) \<noteq> Some (''Runs Gradle test '' @ f @ '' in CI'')"
    proof (intro allI impI notI)
      fix q m u
      assume "lookupProject (createNodesV2 report files opts) buildFile (dirname buildFile) =
          Some q \<and> (m, u) \<in> set (targets q)"
        and "description (metadata u) = Some (''Runs Gradle test '' @ f @ '' in CI'')"
      then have "f \<in> set (ownTestFiles files buildFile)" using cited by blast
      with other show False by (simp add: own_iff)
    qed
    from nb other
    show "map_of (createNodesV2 report (removeAll f files) opts) buildFile =
        map_of (createNodesV2 report files opts) buildFile"
      by (rule outside_file_ignored)
  qed
qed

text \<open>
  C4 on the third test of \<open>nodes.spec.ts\<close>: \<open>test.java\<close> lies under
  \<open>nested/nested/proj\<close>; \<open>proj/src/test/java/test/rootTest.java\<close> does not, the result
  is the same without it, and there is no target \<open>test-ci--rootTest\<close>. And on a project
  \<open>a\<close> that encloses a project \<open>a/b\<close>: the test source file of \<open>a/b\<close> changes nothing
  for \<open>a\<close>, whose only atomized target is the one of its own file.
\<close>

theorem atomized_only_within_subtree_witness:
  "prefix (rootPrefix ''nested/nested/proj'') ''nested/nested/proj/src/test/java/test/test.java'' \<and>
   map_of (createNodesV2 nested_report
      (removeAll ''proj/src/test/java/test/rootTest.java'' nested_files)
      \<lparr> buildTargetName = Some ''build'', ciTargetName = Some ''test-ci'' \<rparr>)
     ''nested/nested/proj/build.gradle'' =
   map_of (createNodesV2 nested_report nested_files
      \<lparr> buildTargetName = Some ''build'', ciTargetName = Some ''test-ci'' \<rparr>)
     ''nested/nested/proj/build.gradle'' \<and>
   lookupTarget
     (createNodesV2 nested_report nested_files
        \<lparr> buildTargetName = Some ''build'', ciTargetName = Some ''test-ci'' \<rparr>)
     ''nested/nested/proj/build.gradle'' ''nested/nested/proj'' ''test-ci--rootTest'' = None \<and>
   map_of (createNodesV2 enclosing_report
      (removeAll ''a/b/src/test/java/BTest.java'' enclosing_files)
      \<lparr> buildTargetName = None, ciTargetName = Some ''test-ci'' \<rparr>)
     ''a/build.gradle'' =
   map_of (createNodesV2 enclosing_report enclosing_files
      \<lparr> buildTargetName = None, ciTargetName = Some ''test-ci'' \<rparr>)
     ''a/build.gradle'' \<and>
   targetNames
     (createNodesV2 enclosing_report enclosing_files
        \<lparr> buildTargetName = None, ciTargetName = Some ''test-ci'' \<rparr>)
     ''a/build.gradle'' ''a'' = {''test'', ''test-ci--ATest'', ''test-ci''}"
proof -
  let ?opts = "\<lparr> buildTargetName = Some ''build'', ciTargetName = Some ''test-ci'' \<rparr>"
  let ?res = "createNodesV2 nested_report nested_files ?opts"
  let ?t = "\<lparr> command = Some ''./gradlew proj:test --tests test'',
             executor = None,
             dependsOn = [TargetName ''classes''],
             inputs = [''default'', ''^production''],
             cache = True,
             metadata = \<lparr> description =
                 Some (''Runs Gradle test '' @ ''nested/nested/proj/src/test/java/test/test.java'' @ '' in CI''),
               nonAtomizedTarget = None, technologies = [''gradle''] \<rparr> \<rparr>"
  have names: "targetNames ?res ''nested/nested/proj/build.gradle'' ''nested/nested/proj'' =
      {''test'', ''test-ci--test'', ''test-ci--test1'', ''test-ci''}"
    by (simp add: targetNames_def nested_lookup addTask_def atomizationApplies_def Let_def
        nested_class_names atomizedTargetName_def insert_commute)
  have tgt: "lookupTarget ?res ''nested/nested/proj/build.gradle'' ''nested/nested/proj''
        ''test-ci--test'' = Some ?t"
    by (simp add: lookupTarget_def nested_lookup addTask_def atomizationApplies_def Let_def
        nested_class_names atomizedTargetName_def atomizedTarget_def)
  obtain p where p: "lookupProject ?res ''nested/nested/proj/build.gradle'' ''nested/nested/proj'' = Some p"
    and mem: "map_of (targets p) ''test-ci--test'' = Some ?t"
    using tgt by (auto simp: lookupTarget_def split: option.splits)
  from mem have in_set: "(''test-ci--test'', ?t) \<in> set (targets p)" by (rule map_of_SomeD)
  have outside: "\<not> isBuildFile ''proj/src/test/java/test/rootTest.java''"
    "\<not> prefix (rootPrefix (dirname ''nested/nested/proj/build.gradle''))
        ''proj/src/test/java/test/rootTest.java''"
    by (simp_all add: isBuildFile_def basename_def GRADLE_BUILD_FILES_def nested_build_file
        rootPrefix_def)
  note inst = atomized_only_within_subtree
    [where report = nested_report and files = nested_files and opts = ?opts
       and buildFile = "''nested/nested/proj/build.gradle''"
       and projectRoot = "''nested/nested/proj''" and p = p and n = "''test-ci--test''"
       and t = ?t]
  have a: "prefix (rootPrefix ''nested/nested/proj'')
      ''nested/nested/proj/src/test/java/test/test.java''"
    using inst[where f = "''nested/nested/proj/src/test/java/test/test.java''", THEN conjunct1]
      p in_set by simp
  have b: "map_of (createNodesV2 nested_report
      (removeAll ''proj/src/test/java/test/rootTest.java'' nested_files) ?opts)
     ''nested/nested/proj/build.gradle'' =
     map_of ?res ''nested/nested/proj/build.gradle''"
    using inst[where f = "''proj/src/test/java/test/rootTest.java''", THEN conjunct2] outside
    by simp
  have c: "lookupTarget ?res ''nested/nested/proj/build.gradle'' ''nested/nested/proj''
      ''test-ci--rootTest'' = None"
  proof -
    have "''test-ci--rootTest'' \<notin> targetNames ?res ''nested/nested/proj/build.gradle'' ''nested/nested/proj''"
      unfolding names by simp
    then show ?thesis
      by (auto simp: targetNames_def lookupTarget_def map_of_eq_None_iff split: option.splits)
  qed
  have nested: "\<not> isBuildFile ''a/b/src/test/java/BTest.java''"
    "''a/b/build.gradle'' \<in> set enclosing_files"
    "isBuildFile ''a/b/build.gradle''"
    "prefix (rootPrefix (dirname ''a/b/build.gradle'')) ''a/b/src/test/java/BTest.java''"
    "length (rootPrefix (dirname ''a/build.gradle'')) < length (rootPrefix (dirname ''a/b/build.gradle''))"
    by (simp_all add: isBuildFile_def basename_def GRADLE_BUILD_FILES_def dirname_def
        rootPrefix_def enclosing_files_def)
  have d: "map_of (createNodesV2 enclosing_report
      (removeAll ''a/b/src/test/java/BTest.java'' enclosing_files)
      \<lparr> buildTargetName = None, ciTargetName = Some ''test-ci'' \<rparr>)
     ''a/build.gradle'' =
     map_of (createNodesV2 enclosing_report enclosing_files
      \<lparr> buildTargetName = None, ciTargetName = Some ''test-ci'' \<rparr>)
     ''a/build.gradle''"
  proof -
    have other: "\<exists>other \<in> set enclosing_files.
         isBuildFile other \<and> prefix (rootPrefix (dirname other)) ''a/b/src/test/java/BTest.java'' \<and>
         length (rootPrefix (dirname ''a/build.gradle'')) < length (rootPrefix (dirname other))"
      using nested(2-5) by (intro bexI[where x = "''a/b/build.gradle''"] conjI)
    from atomized_only_within_subtree
      [where report = enclosing_report and files = enclosing_files
         and opts = "\<lparr> buildTargetName = None, ciTargetName = Some ''test-ci'' \<rparr>"
         and buildFile = "''a/build.gradle''" and f = "''a/b/src/test/java/BTest.java''",
       THEN conjunct2, rule_format, OF conjI, OF nested(1) disjI2, OF other]
    show ?thesis by (rule conjunct2)
  qed
  from a b c d enclosing_targets(1) show ?thesis by (intro conjI)
qed

end
